theory Spec2Isabelle
  imports Main "HOL-Library.Word"
begin

unbundle bit_operations_syntax

section \<open>Machine types\<close>

type_synonym u8 = "8 word"
type_synonym u16 = "16 word"
type_synonym u32 = "32 word"
type_synonym u64 = "64 word"

section \<open>Compute channel (NVDAALChannel)\<close>

text \<open>
  The hardware GPFIFO entry of \<^verbatim>\<open>NVDAALChannel.h\<close>: a 64-bit push-buffer address, a
  32-bit length and a 32-bit flags word.
\<close>

record NvGpfifoEntry =
  address :: u64
  length_ :: u32
  flags :: u32

text \<open>
  The fields of \<^verbatim>\<open>NVDAALChannel\<close> that \<^verbatim>\<open>init\<close> and \<^verbatim>\<open>submit\<close> touch. The two
  buffers are pointers that stay null until \<^verbatim>\<open>boot\<close> allocates them: \<open>None\<close> is the
  null pointer, \<open>Some xs\<close> the memory behind it. The lock and the two memory barriers of
  \<^verbatim>\<open>submit\<close> order stores between threads and have no effect on the sequential result,
  so they do not appear.
\<close>

record channel =
  gpfifoRing :: "NvGpfifoEntry list option"
  ringSize :: u32
  put :: u32
  get :: u32
  userd :: "u32 list option"

datatype fault = NullDeref | OutOfBounds

text \<open>\<^verbatim>\<open>NVDAALChannel::init\<close>: 4096 entries, both indices zero.\<close>

definition channel_init :: "channel \<Rightarrow> channel" where
  "channel_init c = c\<lparr>ringSize := 0x1000, put := 0, get := 0\<rparr>"

text \<open>
  \<^verbatim>\<open>NVDAALChannel::submit\<close>. The three stores to \<^verbatim>\<open>gpfifoRing[put]\<close> come first and are
  not guarded: on a null ring, or with an index beyond the ring, the C++ faults and the
  model returns the fault. The doorbell store is guarded by \<^verbatim>\<open>if (userd)\<close>. The only
  \<^verbatim>\<open>return\<close> of the function returns true.
\<close>

definition submit :: "channel \<Rightarrow> u64 \<Rightarrow> u32 \<Rightarrow> fault + (bool \<times> channel)" where
  "submit c pbGpuAddr pbLength =
     (case gpfifoRing c of
        None \<Rightarrow> Inl NullDeref
      | Some ring \<Rightarrow>
          if \<not> unat (put c) < length ring then Inl OutOfBounds
          else
            let ring' = ring[unat (put c) :=
                          \<lparr>address = pbGpuAddr, length_ = pbLength, flags = 1\<rparr>];
                put' = (put c + 1) mod ringSize c;
                userd' = (case userd c of
                            None \<Rightarrow> None
                          | Some u \<Rightarrow> (case u of [] \<Rightarrow> Some [] | w # ws \<Rightarrow> Some (put' # ws)))
            in Inr (True, c\<lparr>gpfifoRing := Some ring', put := put', userd := userd'\<rparr>))"

text \<open>
  A channel as \<^verbatim>\<open>init\<close> and a successful \<^verbatim>\<open>boot\<close> leave it and as \<^verbatim>\<open>submit\<close> keeps it:
  a ring of \<^verbatim>\<open>ringSize\<close> = 4096 entries, the 4 KiB UserD page (1024 words), and a put
  index inside the ring.
\<close>

definition channel_booted :: "channel \<Rightarrow> bool" where
  "channel_booted c =
     (ringSize c = 0x1000 \<and> put c < ringSize c \<and>
      (case gpfifoRing c of None \<Rightarrow> False | Some ring \<Rightarrow> length ring = 0x1000) \<and>
      (case userd c of None \<Rightarrow> False | Some u \<Rightarrow> length u = 0x400))"

section \<open>GPU virtual address space (NVDAALVASpace)\<close>

text \<open>
  What \<^verbatim>\<open>map\<close> asks of an \<^verbatim>\<open>IOMemoryDescriptor\<close>: its length, and the physical
  address of its first segment (used for the log line only).
\<close>

record io_desc =
  desc_len :: u64
  desc_phys :: u64

record vaspace =
  vaStart :: u64
  vaLimit :: u64
  currentVaOffset :: u64

text \<open>A newly allocated object, before \<^verbatim>\<open>init\<close> runs.\<close>

definition vaspace_fresh :: vaspace where
  "vaspace_fresh = \<lparr>vaStart = 0, vaLimit = 0, currentVaOffset = 0\<rparr>"

text \<open>
  \<^verbatim>\<open>NVDAALVASpace::init\<close>: \<^verbatim>\<open>vaStart = 0x1000000000ULL\<close>, \<^verbatim>\<open>vaLimit = 0xFFFFFFFFFFULL\<close>,
  \<^verbatim>\<open>currentVaOffset = vaStart\<close>.
\<close>

definition vaspace_init :: "vaspace \<Rightarrow> vaspace" where
  "vaspace_init v =
     (let v1 = v\<lparr>vaStart := 0x1000000000\<rparr>;
          v2 = v1\<lparr>vaLimit := 0xFFFFFFFFFF\<rparr>
      in v2\<lparr>currentVaOffset := vaStart v2\<rparr>)"

text \<open>
  \<^verbatim>\<open>NVDAALVASpace::map\<close>, all arithmetic on \<^verbatim>\<open>uint64_t\<close>. A null descriptor gives 0.
  The page tables are not written by the source (a comment says so), and the log line
  has no effect on the result.
\<close>

definition map_va :: "vaspace \<Rightarrow> io_desc option \<Rightarrow> u64 \<Rightarrow> u64 \<times> vaspace" where
  "map_va v mem alignment =
     (case mem of
        None \<Rightarrow> (0, v)
      | Some d \<Rightarrow>
          let size = desc_len d;
              alignedVa = (currentVaOffset v + (alignment - 1)) AND NOT (alignment - 1)
          in if alignedVa + size > vaLimit v then (0, v)
             else (alignedVa, v\<lparr>currentVaOffset := alignedVa + size\<rparr>))"

section \<open>Host memory\<close>

text \<open>
  Host memory as a byte store over addresses. The driver runs on little-endian hosts, so
  a 32-bit store writes the low byte first. \<^verbatim>\<open>memcpy\<close> takes the bytes it read from the
  source range and writes them at the destination.
\<close>

type_synonym memory = "nat \<Rightarrow> u8"

definition store32 :: "memory \<Rightarrow> nat \<Rightarrow> u32 \<Rightarrow> memory" where
  "store32 m a w =
     (\<lambda>x. if x = a then ucast w
          else if x = a + 1 then ucast (drop_bit 8 w)
          else if x = a + 2 then ucast (drop_bit 16 w)
          else if x = a + 3 then ucast (drop_bit 24 w)
          else m x)"

definition load32 :: "memory \<Rightarrow> nat \<Rightarrow> u32" where
  "load32 m a =
     ucast (m a) OR push_bit 8 (ucast (m (a + 1))) OR
     push_bit 16 (ucast (m (a + 2))) OR push_bit 24 (ucast (m (a + 3)))"

definition read_bytes :: "memory \<Rightarrow> nat \<Rightarrow> nat \<Rightarrow> u8 list" where
  "read_bytes m a n = map (\<lambda>i. m (a + i)) [0..<n]"

definition memcpy :: "memory \<Rightarrow> nat \<Rightarrow> u8 list \<Rightarrow> memory" where
  "memcpy m dst bs = (\<lambda>x. if dst \<le> x \<and> x < dst + length bs then bs ! (x - dst) else m x)"

section \<open>RPC checksum (NVDAALGsp::calcChecksum)\<close>

text \<open>
  The inner loop body of \<^verbatim>\<open>calcChecksum\<close>:
  \<^verbatim>\<open>crc = (crc >> 1) ^ (0xEDB88320 & -(crc & 1))\<close>, on \<^verbatim>\<open>uint32_t\<close>.
\<close>

definition crc_bit :: "u32 \<Rightarrow> u32" where
  "crc_bit crc = drop_bit 1 crc XOR (0xEDB88320 AND - (crc AND 1))"

text \<open>The outer loop body: \<^verbatim>\<open>crc ^= bytes[i]\<close>, then the inner loop eight times.\<close>

definition crc_byte :: "u32 \<Rightarrow> u8 \<Rightarrow> u32" where
  "crc_byte crc b = (crc_bit ^^ 8) (crc XOR ucast b)"

definition calcChecksum :: "u8 list \<Rightarrow> u32" where
  "calcChecksum bytes = NOT (foldl crc_byte 0xFFFFFFFF bytes)"

text \<open>
  The reference the checksum is compared with, following the words of the specification:
  CRC-32 with the reflected polynomial \<open>0xEDB88320\<close>, initial value \<open>0xFFFFFFFF\<close> and
  final XOR with \<open>0xFFFFFFFF\<close>. In the reflected form the register shifts right, and
  the polynomial is subtracted when the bit shifted out is set.
\<close>

definition crc32_shift :: "u32 \<Rightarrow> u32" where
  "crc32_shift r = (if bit r 0 then drop_bit 1 r XOR 0xEDB88320 else drop_bit 1 r)"

definition crc32_update :: "u32 \<Rightarrow> u8 \<Rightarrow> u32" where
  "crc32_update r b = (crc32_shift ^^ 8) (r XOR ucast b)"

definition crc32_reference :: "u8 list \<Rightarrow> u32" where
  "crc32_reference bs = foldl crc32_update 0xFFFFFFFF bs XOR 0xFFFFFFFF"

text \<open>The ASCII digits \<open>123456789\<close>, the usual check input of CRC catalogues.\<close>

definition check_input :: "u8 list" where
  "check_input = [0x31, 0x32, 0x33, 0x34, 0x35, 0x36, 0x37, 0x38, 0x39]"

section \<open>GSP controller state, MMIO and the device (NVDAALGsp)\<close>

text \<open>
  The constants of \<^verbatim>\<open>NVDAALRegs.h\<close> and \<^verbatim>\<open>NVDAALGsp.h\<close> that the modelled functions
  name. The two headers are not among the sources, so the register offsets, bit masks,
  RPC function numbers and the \<^verbatim>\<open>NV_PFB_WPR2_ENABLED\<close> and \<^verbatim>\<open>NV_PGSP_QUEUE_TAIL\<close>
  macros are parameters of the model: every function takes the catalogue, and the
  theorems hold for each one.
\<close>

record catalog =
  NV_PFB_PRI_MMU_WPR2_ADDR_HI :: u32
  NV_PFB_PRI_MMU_WPR2_ADDR_LO :: u32
  NV_PFB_PRI_MMU_WPR2_ADDR_LO_VAL :: u32
  NV_PFB_WPR2_ENABLED :: "u32 \<Rightarrow> bool"
  NV_PGSP_BASE :: u32
  NV_PGSP_FALCON_CPUCTL :: u32
  NV_PGSP_FALCON_MAILBOX0 :: u32
  FALCON_BOOTVEC :: u32
  FALCON_CPUCTL_HALTED :: u32
  FALCON_CPUCTL_STARTCPU :: u32
  NV_PBUS_SW_SCRATCH_0E :: u32
  NV_PRISCV_RISCV_CPUCTL :: u32
  NV_PRISCV_RISCV_BCR_CTRL :: u32
  NV_PRISCV_RISCV_BCR_DMEM_ADDR :: u32
  NV_PRISCV_RISCV_BR_RETCODE :: u32
  NV_PRISCV_RISCV_BCR_CTRL_VALID :: u32
  NV_PRISCV_CPUCTL_START :: u32
  NV_PRISCV_CPUCTL_ACTIVE :: u32
  NV_PGC6_BSI_SECURE_SCRATCH_14 :: u32
  NV_PGSP_QUEUE_TAIL :: "u32 \<Rightarrow> u32"
  GSP_CMDQ_IDX :: u32
  NV_VGPU_MSG_SIGNATURE_VALID :: u32
  NV_VGPU_MSG_FUNCTION_GSP_SET_SYSTEM_INFO :: u32
  NV_VGPU_MSG_FUNCTION_GSP_RM_ALLOC :: u32
  NV_VGPU_MSG_FUNCTION_GSP_RM_CONTROL :: u32
  DMEMMAPPER_CMD_FRTS :: u32
  sizeof_DmemMapperHeader :: u64
  offsetof_initCmd :: nat

text \<open>
  The GPU behind BAR0. The driver sees it through 32-bit register reads and writes and
  through delays. A read returns the current value of the register and changes nothing;
  what the GPU does on a write, and while the driver waits, is the device's business and
  a parameter of the model.
\<close>

record device =
  on_write :: "u32 \<Rightarrow> u32 \<Rightarrow> (u32 \<Rightarrow> u32) \<Rightarrow> (u32 \<Rightarrow> u32)"
  on_delay :: "nat \<Rightarrow> (u32 \<Rightarrow> u32) \<Rightarrow> (u32 \<Rightarrow> u32)"

datatype mmio_event = RegRead u32 | RegWrite u32 u32 | Delay nat

text \<open>
  The log lines of \<^verbatim>\<open>startRiscv\<close>'s polling loop, with the values they print: the
  periodic register dump, "RISC-V core active after i iterations", "Boot error detected:
  BR_RETCODE=... at iteration i", and the final "RISC-V core failed to start". Log lines
  of the other functions change nothing that is stated about them and are left out.
\<close>

datatype log_msg =
    LogPoll nat u32 u32
  | LogActive nat
  | LogBootError u32 nat
  | LogFailed

text \<open>The result of VBIOS parsing, \<^verbatim>\<open>fwsecInfo\<close>.\<close>

record FalconUcodeInfo =
  fwOffset :: u32
  storedSize :: u32
  imemOffset :: u32
  imemSize :: u32
  imemSecSize :: u32
  dmemOffset :: u32
  dmemSize :: u32
  sigOffset :: u32
  sigSize :: u32
  bootVec :: u32
  dmemMapperOffset :: u32
  valid :: bool

text \<open>
  The members of \<^verbatim>\<open>NVDAALGsp\<close> that the modelled functions read or write, the register
  file of the GPU, the log of MMIO accesses in program order, host memory, and the
  driver's log. A buffer
  pointer is \<open>None\<close> when null; \<^verbatim>\<open>fwsecMem\<close> carries the address and the length of the
  VBIOS buffer.
\<close>

record gsp =
  regs :: "u32 \<Rightarrow> u32"
  trace :: "mmio_event list"
  mem :: memory
  cmdQueue :: "nat option"
  cmdQueueHead :: u32
  cmdQueueTail :: u32
  rpcSeqNum :: u32
  gspReady :: bool
  wpr2Lo :: u64
  wpr2Hi :: u64
  fwsecMem :: "(nat \<times> u64) option"
  fwsecPhys :: u64
  fwsecInfo :: FalconUcodeInfo
  fwsecImageOffset :: u32
  fwsecImageSize :: u32
  wprMetaPhys :: u64
  iolog :: "log_msg list"

definition readReg :: "gsp \<Rightarrow> u32 \<Rightarrow> u32 \<times> gsp" where
  "readReg s a = (regs s a, s\<lparr>trace := trace s @ [RegRead a]\<rparr>)"

definition writeReg :: "device \<Rightarrow> gsp \<Rightarrow> u32 \<Rightarrow> u32 \<Rightarrow> gsp" where
  "writeReg dev s a v =
     s\<lparr>regs := on_write dev a v (regs s), trace := trace s @ [RegWrite a v]\<rparr>"

definition IOLog :: "gsp \<Rightarrow> log_msg \<Rightarrow> gsp" where
  "IOLog s m = s\<lparr>iolog := iolog s @ [m]\<rparr>"

definition IODelay :: "device \<Rightarrow> gsp \<Rightarrow> nat \<Rightarrow> gsp" where
  "IODelay dev s n = s\<lparr>regs := on_delay dev n (regs s), trace := trace s @ [Delay n]\<rparr>"

section \<open>RPC transport (enqueueCommand, sendRpc)\<close>

text \<open>
  Modelled from the spec: the capacity of each ring, 256 KiB. The macro \<^verbatim>\<open>QUEUE_SIZE\<close>
  is declared in \<^verbatim>\<open>NVDAALGsp.h\<close>, which is not among the sources; it is taken as an
  \<^verbatim>\<open>int\<close> constant, so that \<^verbatim>\<open>QUEUE_SIZE - tail + head\<close> is computed on \<^verbatim>\<open>uint32_t\<close>.
\<close>

definition QUEUE_SIZE :: u32 where
  "QUEUE_SIZE = 0x40000"

text \<open>
  Modelled from the spec: the frame header \<^verbatim>\<open>GspQueueElement\<close> is
  \<open>{seqNum, elemCount, checkSum, reserved}\<close>, four 32-bit fields in this order, followed
  by the payload \<^verbatim>\<open>data[]\<close>; its \<^verbatim>\<open>sizeof\<close> is 16.
\<close>

definition sizeof_GspQueueElement :: u64 where
  "sizeof_GspQueueElement = 16"

text \<open>
  The two local size computations of \<^verbatim>\<open>enqueueCommand\<close>, on \<^verbatim>\<open>size_t\<close> (64 bits):
  \<^verbatim>\<open>elemSize = sizeof(GspQueueElement) + size\<close> and
  \<^verbatim>\<open>alignedSize = (elemSize + 0xFFULL) & ~0xFFULL\<close>.
\<close>

definition alignedSize :: "u64 \<Rightarrow> u64" where
  "alignedSize sz = ((sizeof_GspQueueElement + sz) + 0xFF) AND NOT 0xFF"

text \<open>
  \<^verbatim>\<open>freeSpace = (tail >= head) ? (QUEUE_SIZE - tail + head) : (head - tail)\<close>, computed
  on \<^verbatim>\<open>uint32_t\<close> and widened to \<^verbatim>\<open>size_t\<close>.
\<close>

definition freeSpace :: "u32 \<Rightarrow> u32 \<Rightarrow> u64" where
  "freeSpace head tail =
     (if tail \<ge> head then ucast (QUEUE_SIZE - tail + head) else ucast (head - tail))"

text \<open>
  \<^verbatim>\<open>NVDAALGsp::enqueueCommand(msg, size)\<close>. The element is written at
  \<^verbatim>\<open>cmdQueue + tail\<close> in the order of the source: sequence number, element count,
  reserved word, payload, then the checksum of the payload as it lies in the element.
  The source does not wrap the write at the end of the ring, and neither does the model:
  addresses past the ring are addresses of the same store.
\<close>

definition enqueueCommand :: "device \<Rightarrow> catalog \<Rightarrow> gsp \<Rightarrow> nat \<Rightarrow> u64 \<Rightarrow> bool \<times> gsp" where
  "enqueueCommand dev rc s msg sz =
     (case cmdQueue s of
        None \<Rightarrow> (False, s)
      | Some q \<Rightarrow>
          let head = cmdQueueHead s;
              tail = cmdQueueTail s
          in if freeSpace head tail < alignedSize sz then (False, s)
             else
               let elem = q + unat tail;
                   m1 = store32 (mem s) elem (rpcSeqNum s);
                   s1 = s\<lparr>mem := m1, rpcSeqNum := rpcSeqNum s + 1\<rparr>;
                   m2 = store32 (mem s1) (elem + 4)
                          (ucast ((alignedSize sz + 0xFFF) div 0x1000));
                   m3 = store32 m2 (elem + 12) 0;
                   m4 = memcpy m3 (elem + 16) (read_bytes m3 msg (unat sz));
                   m5 = store32 m4 (elem + 8)
                          (calcChecksum (read_bytes m4 (elem + 16) (unat sz)));
                   s2 = s1\<lparr>mem := m5,
                           cmdQueueTail :=
                             ucast ((ucast tail + alignedSize sz) mod ucast QUEUE_SIZE)\<rparr>
               in (True, writeReg dev s2 (NV_PGSP_QUEUE_TAIL rc (GSP_CMDQ_IDX rc))
                           (cmdQueueTail s2)))"

text \<open>
  Modelled from the spec: the message header \<^verbatim>\<open>NvRpcMessageHeader\<close> is
  \<open>{signature, headerVersion, rpcResult, rpcResultPriv, function, length}\<close>, six 32-bit
  fields in this order, 24 bytes.
\<close>

definition sizeof_NvRpcMessageHeader :: u64 where
  "sizeof_NvRpcMessageHeader = 24"

text \<open>
  \<^verbatim>\<open>NVDAALGsp::sendRpc(function, params, paramsSize)\<close>. \<open>msgBuf\<close> is what \<^verbatim>\<open>IOMalloc\<close>
  returns for the message buffer (\<open>None\<close> when it fails); \<^verbatim>\<open>IOFree\<close> changes no byte.
  \<open>params\<close> is a pointer, \<open>None\<close> when null.
\<close>

definition sendRpc ::
  "device \<Rightarrow> catalog \<Rightarrow> gsp \<Rightarrow> nat option \<Rightarrow> u32 \<Rightarrow> nat option \<Rightarrow> u64 \<Rightarrow> bool \<times> gsp" where
  "sendRpc dev rc s msgBuf function params paramsSize =
     (if \<not> gspReady s \<and> function \<noteq> NV_VGPU_MSG_FUNCTION_GSP_SET_SYSTEM_INFO rc
      then (False, s)
      else
        let msgSize = sizeof_NvRpcMessageHeader + paramsSize
        in case msgBuf of
             None \<Rightarrow> (False, s)
           | Some b \<Rightarrow>
               let m1 = store32 (mem s) b (NV_VGPU_MSG_SIGNATURE_VALID rc);
                   m2 = store32 m1 (b + 4) (push_bit 24 3);
                   m3 = store32 m2 (b + 8) 0;
                   m4 = store32 m3 (b + 12) 0;
                   m5 = store32 m4 (b + 16) function;
                   m6 = store32 m5 (b + 20) (ucast msgSize);
                   m7 = (case params of
                           None \<Rightarrow> m6
                         | Some p \<Rightarrow>
                             if paramsSize > 0
                             then memcpy m6 (b + 24) (read_bytes m6 p (unat paramsSize))
                             else m6)
               in enqueueCommand dev rc (s\<lparr>mem := m7\<rparr>) b msgSize)"

section \<open>Resource-Manager client (rmAlloc, rmControl)\<close>

text \<open>
  Modelled from the spec: \<^verbatim>\<open>NvGspAllocParams\<close> is
  \<open>{hClient, hParent, hObject, hClass, status}\<close>, five 32-bit fields in this order
  (20 bytes), and \<^verbatim>\<open>NvGspControlParams\<close> is
  \<open>{hClient, hObject, cmd, flags, status, paramsSize}\<close>, six 32-bit fields in this order
  (24 bytes). Both are declared in \<^verbatim>\<open>NVDAALGsp.h\<close>, which is not among the sources.
\<close>

definition sizeof_NvGspAllocParams :: u64 where
  "sizeof_NvGspAllocParams = 20"

definition sizeof_NvGspControlParams :: u64 where
  "sizeof_NvGspControlParams = 24"

text \<open>
  The buffer both functions build their request in: the 256-byte local array at
  \<open>stackBuf\<close> when the request fits, otherwise what \<^verbatim>\<open>IOMalloc\<close> returns (\<open>heapBuf\<close>,
  \<open>None\<close> when it fails, and then the function returns false).
\<close>

definition rm_buffer :: "u64 \<Rightarrow> nat \<Rightarrow> nat option \<Rightarrow> nat option" where
  "rm_buffer allocSize stackBuf heapBuf = (if allocSize > 256 then heapBuf else Some stackBuf)"

text \<open>
  \<^verbatim>\<open>NVDAALGsp::rmAlloc\<close>. \<open>msgBuf\<close> is what the \<^verbatim>\<open>IOMalloc\<close> inside \<^verbatim>\<open>sendRpc\<close>
  returns. After \<^verbatim>\<open>sendRpc\<close> the status field is read back from the same buffer.
\<close>

definition rmAlloc ::
  "device \<Rightarrow> catalog \<Rightarrow> gsp \<Rightarrow> nat \<Rightarrow> nat option \<Rightarrow> nat option \<Rightarrow>
   u32 \<Rightarrow> u32 \<Rightarrow> u32 \<Rightarrow> u32 \<Rightarrow> nat option \<Rightarrow> u64 \<Rightarrow> bool \<times> gsp" where
  "rmAlloc dev rc s stackBuf heapBuf msgBuf hClient hParent hObject hClass params paramsSize =
     (let allocSize = sizeof_NvGspAllocParams + paramsSize
      in case rm_buffer allocSize stackBuf heapBuf of
           None \<Rightarrow> (False, s)
         | Some buffer \<Rightarrow>
             let m1 = store32 (mem s) buffer hClient;
                 m2 = store32 m1 (buffer + 4) hParent;
                 m3 = store32 m2 (buffer + 8) hObject;
                 m4 = store32 m3 (buffer + 12) hClass;
                 m5 = store32 m4 (buffer + 16) 0;
                 m6 = (case params of
                         None \<Rightarrow> m5
                       | Some p \<Rightarrow>
                           if paramsSize > 0
                           then memcpy m5 (buffer + 20) (read_bytes m5 p (unat paramsSize))
                           else m5);
                 (result, s1) = sendRpc dev rc (s\<lparr>mem := m6\<rparr>) msgBuf
                                  (NV_VGPU_MSG_FUNCTION_GSP_RM_ALLOC rc) (Some buffer) allocSize
             in if result \<and> load32 (mem s1) (buffer + 16) \<noteq> 0 then (False, s1)
                else (result, s1))"

text \<open>\<^verbatim>\<open>NVDAALGsp::rmControl\<close>, built the same way around its own header.\<close>

definition rmControl ::
  "device \<Rightarrow> catalog \<Rightarrow> gsp \<Rightarrow> nat \<Rightarrow> nat option \<Rightarrow> nat option \<Rightarrow>
   u32 \<Rightarrow> u32 \<Rightarrow> u32 \<Rightarrow> nat option \<Rightarrow> u64 \<Rightarrow> bool \<times> gsp" where
  "rmControl dev rc s stackBuf heapBuf msgBuf hClient hObject cmd params paramsSize =
     (let ctrlSize = sizeof_NvGspControlParams + paramsSize
      in case rm_buffer ctrlSize stackBuf heapBuf of
           None \<Rightarrow> (False, s)
         | Some buffer \<Rightarrow>
             let m1 = store32 (mem s) buffer hClient;
                 m2 = store32 m1 (buffer + 4) hObject;
                 m3 = store32 m2 (buffer + 8) cmd;
                 m4 = store32 m3 (buffer + 12) 0;
                 m5 = store32 m4 (buffer + 16) 0;
                 m6 = store32 m5 (buffer + 20) (ucast paramsSize);
                 m7 = (case params of
                         None \<Rightarrow> m6
                       | Some p \<Rightarrow>
                           if paramsSize > 0
                           then memcpy m6 (buffer + 24) (read_bytes m6 p (unat paramsSize))
                           else m6);
                 (result, s1) = sendRpc dev rc (s\<lparr>mem := m7\<rparr>) msgBuf
                                  (NV_VGPU_MSG_FUNCTION_GSP_RM_CONTROL rc) (Some buffer) ctrlSize
             in if result \<and> load32 (mem s1) (buffer + 16) \<noteq> 0 then (False, s1)
                else (result, s1))"

text \<open>
  Two byte ranges, each given by its first address and its length, that do not overlap.
\<close>

definition apart :: "nat \<Rightarrow> nat \<Rightarrow> nat \<Rightarrow> nat \<Rightarrow> bool" where
  "apart a n b m = (a + n \<le> b \<or> b + m \<le> a)"

text \<open>
  The conditions under which \<^verbatim>\<open>sendRpc\<close> reaches \<^verbatim>\<open>enqueueCommand\<close> and the command
  is enqueued: the GSP is ready (or the function is the one allowed before), the message
  buffer was allocated, the command queue exists and has room for the aligned element.
\<close>

definition rpc_accepted :: "catalog \<Rightarrow> gsp \<Rightarrow> nat option \<Rightarrow> u32 \<Rightarrow> u64 \<Rightarrow> bool" where
  "rpc_accepted rc s msgBuf function paramsSize =
     ((gspReady s \<or> function = NV_VGPU_MSG_FUNCTION_GSP_SET_SYSTEM_INFO rc) \<and>
      msgBuf \<noteq> None \<and> cmdQueue s \<noteq> None \<and>
      \<not> freeSpace (cmdQueueHead s) (cmdQueueTail s)
           < alignedSize (sizeof_NvRpcMessageHeader + paramsSize))"

section \<open>GSP boot: starting the RISC-V core (startRiscv)\<close>

text \<open>
  The diagnostic scan at the head of \<^verbatim>\<open>startRiscv\<close>: for each of the seven candidate
  bases, two register reads whose values are only printed.
\<close>

definition testBases :: "u32 list" where
  "testBases = [0x110000, 0x111000, 0x112000, 0x113000, 0x117000, 0x118000, 0x119000]"

fun scan_bases :: "gsp \<Rightarrow> u32 list \<Rightarrow> gsp" where
  "scan_bases s [] = s"
| "scan_bases s (base # bs) =
     (let (val388, s1) = readReg s (base + 0x388);
          (val100, s2) = readReg s1 (base + 0x100)
      in scan_bases s2 bs)"

text \<open>
  The polling loop \<^verbatim>\<open>for (int i = 0; i < 100; i++)\<close>, from iteration \<open>i\<close> on. It
  returns true from inside the loop when the ACTIVE bit is set; running out of
  iterations gives false.
\<close>

function riscv_wait :: "device \<Rightarrow> catalog \<Rightarrow> gsp \<Rightarrow> nat \<Rightarrow> bool \<times> gsp" where
  "riscv_wait dev rc s i =
     (if i < 100 then
        let (status, s1) = readReg s (NV_PRISCV_RISCV_CPUCTL rc);
            (retcode, s2) = readReg s1 (NV_PRISCV_RISCV_BR_RETCODE rc);
            s3 = (if i = 0 \<or> i = 10 \<or> i = 50 \<or> i = 99
                  then IOLog s2 (LogPoll i status retcode) else s2)
        in if status AND NV_PRISCV_CPUCTL_ACTIVE rc \<noteq> 0 then (True, IOLog s3 (LogActive i))
           else
             let s4 = (if retcode \<noteq> 0 \<and> retcode \<noteq> 0xbadf5040
                       then IOLog s3 (LogBootError retcode i) else s3)
             in riscv_wait dev rc (IODelay dev s4 1000) (i + 1)
      else (False, s))"
  by pat_completeness auto
termination
  by (relation "measure (\<lambda>(dev, rc, s, i). 100 - i)") auto

declare riscv_wait.simps [simp del]

text \<open>
  \<^verbatim>\<open>NVDAALGsp::startRiscv\<close>: the scan, two reads of the current state, the three writes
  that program the boot configuration and start the core, the polling loop, and on
  failure four diagnostic reads.
\<close>

definition startRiscv :: "device \<Rightarrow> catalog \<Rightarrow> gsp \<Rightarrow> bool \<times> gsp" where
  "startRiscv dev rc s =
     (let s1 = scan_bases s testBases;
          (preCpuctl, s2) = readReg s1 (NV_PRISCV_RISCV_CPUCTL rc);
          (preBcrCtrl, s3) = readReg s2 (NV_PRISCV_RISCV_BCR_CTRL rc);
          bcrAddr = (ucast (drop_bit 8 (wprMetaPhys s3)) :: u32);
          s4 = writeReg dev s3 (NV_PRISCV_RISCV_BCR_DMEM_ADDR rc) bcrAddr;
          bcrCtrlVal = NV_PRISCV_RISCV_BCR_CTRL_VALID rc OR bcrAddr;
          s5 = writeReg dev s4 (NV_PRISCV_RISCV_BCR_CTRL rc) bcrCtrlVal;
          s6 = writeReg dev s5 (NV_PRISCV_RISCV_CPUCTL rc) (NV_PRISCV_CPUCTL_START rc);
          (ok, s7) = riscv_wait dev rc s6 0
      in if ok then (True, s7)
         else
           let (finalCpuctl, s8) = readReg s7 (NV_PRISCV_RISCV_CPUCTL rc);
               (finalRetcode, s9) = readReg s8 (NV_PRISCV_RISCV_BR_RETCODE rc);
               (scratch14, s10) = readReg s9 (NV_PGC6_BSI_SECURE_SCRATCH_14 rc);
               (mailbox0, s11) = readReg s10 (NV_PGSP_FALCON_MAILBOX0 rc)
           in (False, IOLog s11 LogFailed))"

text \<open>
  The register file the loop of \<^verbatim>\<open>startRiscv\<close> polls: what the three writes leave, and
  what it has become at poll \<open>i\<close>, after \<open>i\<close> delays of 1 ms.
\<close>

definition regs_started :: "device \<Rightarrow> catalog \<Rightarrow> gsp \<Rightarrow> u32 \<Rightarrow> u32" where
  "regs_started dev rc s =
     (let bcrAddr = (ucast (drop_bit 8 (wprMetaPhys s)) :: u32)
      in on_write dev (NV_PRISCV_RISCV_CPUCTL rc) (NV_PRISCV_CPUCTL_START rc)
           (on_write dev (NV_PRISCV_RISCV_BCR_CTRL rc) (NV_PRISCV_RISCV_BCR_CTRL_VALID rc OR bcrAddr)
              (on_write dev (NV_PRISCV_RISCV_BCR_DMEM_ADDR rc) bcrAddr (regs s))))"

definition regs_at_poll :: "device \<Rightarrow> (u32 \<Rightarrow> u32) \<Rightarrow> nat \<Rightarrow> u32 \<Rightarrow> u32" where
  "regs_at_poll dev r i = ((on_delay dev 1000) ^^ i) r"

definition active_at :: "device \<Rightarrow> catalog \<Rightarrow> (u32 \<Rightarrow> u32) \<Rightarrow> nat \<Rightarrow> bool" where
  "active_at dev rc r i =
     (regs_at_poll dev r i (NV_PRISCV_RISCV_CPUCTL rc) AND NV_PRISCV_CPUCTL_ACTIVE rc \<noteq> 0)"

definition retcode_at :: "device \<Rightarrow> catalog \<Rightarrow> (u32 \<Rightarrow> u32) \<Rightarrow> nat \<Rightarrow> u32" where
  "retcode_at dev rc r i = regs_at_poll dev r i (NV_PRISCV_RISCV_BR_RETCODE rc)"

text \<open>
  Poll \<open>k\<close> of a loop entered at iteration \<open>i\<close> on the register file \<open>r\<close> takes place,
  finds the core not active (as all polls before it), and reads the return code \<open>c\<close>,
  which is neither 0 nor \<open>0xbadf5040\<close>.
\<close>

definition polled :: "device \<Rightarrow> catalog \<Rightarrow> (u32 \<Rightarrow> u32) \<Rightarrow> nat \<Rightarrow> u32 \<Rightarrow> nat \<Rightarrow> bool" where
  "polled dev rc r i c k =
     (\<exists>d. k = i + d \<and> k < 100 \<and> (\<forall>e\<le>d. \<not> active_at dev rc r e) \<and>
          c = retcode_at dev rc r d \<and> c \<noteq> 0 \<and> c \<noteq> 0xbadf5040)"

section \<open>Secure bring-up: FWSEC-FRTS (checkWpr2Setup, executeFwsecFrts)\<close>

text \<open>
  \<^verbatim>\<open>NVDAALGsp::checkWpr2Setup\<close>: two register reads; when the enabled bit of the HI value
  is set, the bounds are stored in the members \<^verbatim>\<open>wpr2Hi\<close> and \<^verbatim>\<open>wpr2Lo\<close> (the second
  after a third read) and the result is true.
\<close>

definition checkWpr2Setup :: "catalog \<Rightarrow> gsp \<Rightarrow> bool \<times> gsp" where
  "checkWpr2Setup rc s =
     (let (wpr2HiReg, s1) = readReg s (NV_PFB_PRI_MMU_WPR2_ADDR_HI rc);
          (wpr2LoReg, s2) = readReg s1 (NV_PFB_PRI_MMU_WPR2_ADDR_LO rc)
      in if NV_PFB_WPR2_ENABLED rc wpr2HiReg then
           let s3 = s2\<lparr>wpr2Hi := push_bit 32 (ucast (wpr2HiReg AND 0xFFFFF))
                                  OR ucast (wpr2LoReg AND 0xFFF00000)\<rparr>;
               (loVal, s4) = readReg s3 (NV_PFB_PRI_MMU_WPR2_ADDR_LO_VAL rc)
           in (True, s4\<lparr>wpr2Lo := push_bit 12 (ucast (loVal AND 0xFFFFF))\<rparr>)
         else (False, s2))"

text \<open>
  The member functions that \<^verbatim>\<open>executeFwsecFrts\<close> calls for its strategies:
  \<^verbatim>\<open>parseVbios(data, size)\<close>, \<^verbatim>\<open>executeFwsecViaBrom()\<close>,
  \<^verbatim>\<open>loadFalconUcodeDma(falconBase, fwMem, fwPhys, fwSize, bootVec)\<close> and
  \<^verbatim>\<open>loadFalconUcode(falconBase, imem, imemSize, dmem, dmemSize)\<close>. They are parameters
  here: what is proved about \<^verbatim>\<open>executeFwsecFrts\<close> holds whatever they do. The parser
  itself is modelled in the section on the VBIOS parser.
\<close>

record callees =
  parseVbios_call :: "gsp \<Rightarrow> nat \<Rightarrow> u64 \<Rightarrow> bool \<times> gsp"
  executeFwsecViaBrom_call :: "gsp \<Rightarrow> bool \<times> gsp"
  loadFalconUcodeDma_call :: "gsp \<Rightarrow> u32 \<Rightarrow> u64 \<Rightarrow> u64 \<Rightarrow> u32 \<Rightarrow> bool \<times> gsp"
  loadFalconUcode_call :: "gsp \<Rightarrow> u32 \<Rightarrow> nat \<Rightarrow> u64 \<Rightarrow> nat \<Rightarrow> u64 \<Rightarrow> bool \<times> gsp"

text \<open>
  The wait loop of the DMA strategy, from iteration \<open>i\<close> on: true when the Falcon
  halted and WPR2 is set up (the function then returns true), false when the loop ends
  or breaks.
\<close>

function dma_wait :: "device \<Rightarrow> catalog \<Rightarrow> gsp \<Rightarrow> nat \<Rightarrow> bool \<times> gsp" where
  "dma_wait dev rc s i =
     (if i < 1000 then
        let (cpuctl, s1) = readReg s (NV_PGSP_FALCON_CPUCTL rc)
        in if cpuctl AND FALCON_CPUCTL_HALTED rc \<noteq> 0 then checkWpr2Setup rc s1
           else dma_wait dev rc (IODelay dev s1 1000) (i + 1)
      else (False, s))"
  by pat_completeness auto
termination
  by (relation "measure (\<lambda>(dev, rc, s, i). 1000 - i)") auto

declare dma_wait.simps [simp del]

text \<open>The wait loop of the PIO strategy: it ends when the Falcon halted or after 1000 polls.\<close>

function pio_wait :: "device \<Rightarrow> catalog \<Rightarrow> gsp \<Rightarrow> nat \<Rightarrow> gsp" where
  "pio_wait dev rc s i =
     (if i < 1000 then
        let (cpuctl, s1) = readReg s (NV_PGSP_FALCON_CPUCTL rc);
            (scratch0e, s2) = readReg s1 (NV_PBUS_SW_SCRATCH_0E rc)
        in if cpuctl AND FALCON_CPUCTL_HALTED rc \<noteq> 0 then s2
           else pio_wait dev rc (IODelay dev s2 1000) (i + 1)
      else s)"
  by pat_completeness auto
termination
  by (relation "measure (\<lambda>(dev, rc, s, i). 1000 - i)") auto

declare pio_wait.simps [simp del]

text \<open>
  Method 3 of \<^verbatim>\<open>executeFwsecFrts\<close>: reset the Falcon, validate the offsets (the sums are
  computed on \<^verbatim>\<open>uint32_t\<close>), copy DMEM to a buffer from \<^verbatim>\<open>IOMalloc\<close> (\<open>dmemCopy\<close>, \<open>None\<close>
  when it fails), patch the command of the DMEM mapper, load, set the boot vector, start,
  wait, and check WPR2.
\<close>

definition executeFwsecFrts_pio ::
  "device \<Rightarrow> catalog \<Rightarrow> callees \<Rightarrow> gsp \<Rightarrow> nat \<Rightarrow> u64 \<Rightarrow> nat option \<Rightarrow> bool \<times> gsp" where
  "executeFwsecFrts_pio dev rc cs s vbiosData vbiosSize dmemCopy =
     (let s1 = writeReg dev s (NV_PGSP_FALCON_CPUCTL rc) 0;
          s2 = IODelay dev s1 100;
          info = fwsecInfo s2;
          imem = vbiosData + unat (imemOffset info);
          dmem = vbiosData + unat (dmemOffset info)
      in if ucast (imemOffset info + imemSize info) > vbiosSize \<or>
            ucast (dmemOffset info + dmemSize info) > vbiosSize
         then (False, s2)
         else
           case dmemCopy of
             None \<Rightarrow> (False, s2)
           | Some dc \<Rightarrow>
               let m1 = memcpy (mem s2) dc (read_bytes (mem s2) dmem (unat (dmemSize info)));
                   m2 = (if dmemMapperOffset info > 0 \<and>
                            ucast (dmemMapperOffset info) + sizeof_DmemMapperHeader rc
                              \<le> ucast (dmemSize info)
                         then store32 m1 (dc + unat (dmemMapperOffset info) + offsetof_initCmd rc)
                                (DMEMMAPPER_CMD_FRTS rc)
                         else m1);
                   (loaded, s4) = loadFalconUcode_call cs (s2\<lparr>mem := m2\<rparr>) (NV_PGSP_BASE rc)
                                    imem (ucast (imemSize info)) dc (ucast (dmemSize info))
               in if \<not> loaded then (False, s4)
                  else
                    let s5 = writeReg dev s4 (NV_PGSP_BASE rc + FALCON_BOOTVEC rc)
                               (bootVec (fwsecInfo s4));
                        s6 = writeReg dev s5 (NV_PGSP_FALCON_CPUCTL rc)
                               (FALCON_CPUCTL_STARTCPU rc);
                        s7 = pio_wait dev rc s6 0
                    in checkWpr2Setup rc s7)"

text \<open>Method 2, falling through to method 3 when it does not return true.\<close>

definition executeFwsecFrts_dma ::
  "device \<Rightarrow> catalog \<Rightarrow> callees \<Rightarrow> gsp \<Rightarrow> nat \<Rightarrow> u64 \<Rightarrow> nat option \<Rightarrow> bool \<times> gsp" where
  "executeFwsecFrts_dma dev rc cs s vbiosData vbiosSize dmemCopy =
     (if fwsecPhys s \<noteq> 0 \<and> storedSize (fwsecInfo s) > 0 then
        let fwsecFwPhys = fwsecPhys s + ucast (fwOffset (fwsecInfo s));
            (loaded, s1) = loadFalconUcodeDma_call cs s (NV_PGSP_BASE rc) fwsecFwPhys
                             (ucast (storedSize (fwsecInfo s))) (bootVec (fwsecInfo s))
        in if loaded then
             let (done, s2) = dma_wait dev rc s1 0
             in if done then (True, s2)
                else executeFwsecFrts_pio dev rc cs s2 vbiosData vbiosSize dmemCopy
           else executeFwsecFrts_pio dev rc cs s1 vbiosData vbiosSize dmemCopy
      else executeFwsecFrts_pio dev rc cs s vbiosData vbiosSize dmemCopy)"

text \<open>Method 1, falling through to method 2 when it does not return true.\<close>

definition executeFwsecFrts_brom ::
  "device \<Rightarrow> catalog \<Rightarrow> callees \<Rightarrow> gsp \<Rightarrow> nat \<Rightarrow> u64 \<Rightarrow> nat option \<Rightarrow> bool \<times> gsp" where
  "executeFwsecFrts_brom dev rc cs s vbiosData vbiosSize dmemCopy =
     (if storedSize (fwsecInfo s) > 0 \<and> fwsecPhys s \<noteq> 0 then
        let (ok, s1) = executeFwsecViaBrom_call cs s
        in if ok then (True, s1)
           else executeFwsecFrts_dma dev rc cs s1 vbiosData vbiosSize dmemCopy
      else executeFwsecFrts_dma dev rc cs s vbiosData vbiosSize dmemCopy)"

text \<open>
  \<^verbatim>\<open>NVDAALGsp::executeFwsecFrts\<close>: two register reads for the log line, the WPR2 check
  with its early return, the VBIOS buffer check, parsing when it was not done, and the
  three methods in turn.
\<close>

definition executeFwsecFrts ::
  "device \<Rightarrow> catalog \<Rightarrow> callees \<Rightarrow> gsp \<Rightarrow> nat option \<Rightarrow> bool \<times> gsp" where
  "executeFwsecFrts dev rc cs s dmemCopy =
     (let (wpr2HiReg, s1) = readReg s (NV_PFB_PRI_MMU_WPR2_ADDR_HI rc);
          (wpr2LoReg, s2) = readReg s1 (NV_PFB_PRI_MMU_WPR2_ADDR_LO rc);
          (configured, s3) = checkWpr2Setup rc s2
      in if configured then (True, s3)
         else
           case fwsecMem s3 of
             None \<Rightarrow> (False, s3)
           | Some (vbiosData, vbiosSize) \<Rightarrow>
               let (parsed, s4) = (if \<not> valid (fwsecInfo s3)
                                   then parseVbios_call cs s3 vbiosData vbiosSize
                                   else (True, s3))
               in if \<not> parsed then (False, s4)
                  else if \<not> valid (fwsecInfo s4) then (False, s4)
                  else executeFwsecFrts_brom dev rc cs s4 vbiosData vbiosSize dmemCopy)"

section \<open>Radix3 page table (buildRadix3PageTable)\<close>

text \<open>
  The page size of the GSP, 4 KiB: \<^verbatim>\<open>GSP_PAGE_SIZE\<close>, as the comment at the head of
  \<^verbatim>\<open>buildRadix3PageTable\<close> gives it.
\<close>

definition GSP_PAGE_SIZE :: u64 where
  "GSP_PAGE_SIZE = 0x1000"

text \<open>
  The two members the function sets: the table buffer, seen through \<^verbatim>\<open>uint64_t *\<close> as
  the source does (\<open>None\<close> when no buffer is held), and its bus address.
\<close>

record radix3 =
  radix3Mem :: "u64 list option"
  radix3Phys :: u64

text \<open>
  The three fill loops, from index \<open>i\<close> on. The first two store \<open>(phys + i * 4096) | 1\<close>
  at \<open>table[base + i]\<close>. The third asks the firmware descriptor for the physical address at
  byte offset \<open>i * 4096\<close> and returns false as soon as the answer is 0.
\<close>

function fill_level :: "u64 list \<Rightarrow> nat \<Rightarrow> u64 \<Rightarrow> nat \<Rightarrow> nat \<Rightarrow> u64 list" where
  "fill_level tbl base phys n i =
     (if i < n
      then fill_level (tbl[base + i := (phys + of_nat i * GSP_PAGE_SIZE) OR 1]) base phys n (i + 1)
      else tbl)"
  by pat_completeness auto
termination
  by (relation "measure (\<lambda>(tbl, base, phys, n, i). n - i)") auto

declare fill_level.simps [simp del]

function fill_leaves :: "(u64 \<Rightarrow> u64) \<Rightarrow> u64 list \<Rightarrow> nat \<Rightarrow> nat \<Rightarrow> nat \<Rightarrow> bool \<times> u64 list" where
  "fill_leaves getPhysicalSegment tbl base n i =
     (if i < n then
        let pagePhys = getPhysicalSegment (of_nat i * GSP_PAGE_SIZE)
        in if pagePhys = 0 then (False, tbl)
           else fill_leaves getPhysicalSegment (tbl[base + i := pagePhys OR 1]) base n (i + 1)
      else (True, tbl))"
  by pat_completeness auto
termination
  by (relation "measure (\<lambda>(g, tbl, base, n, i). n - i)") auto

declare fill_leaves.simps [simp del]

text \<open>
  \<^verbatim>\<open>NVDAALGsp::buildRadix3PageTable(firmware, size)\<close>. \<open>getPhysicalSegment\<close> is the
  query of the firmware descriptor, \<open>alloc\<close> the bus address that \<^verbatim>\<open>allocDmaBuffer\<close>
  obtains for the table (\<open>None\<close> when the allocation fails). All counts are computed on
  64-bit unsigned integers, as in the source. The buffer of \<open>tableSize\<close> bytes is zeroed
  and holds \<open>tableSize / 8\<close> entries.
\<close>

definition buildRadix3PageTable ::
  "(u64 \<Rightarrow> u64) \<Rightarrow> u64 option \<Rightarrow> radix3 \<Rightarrow> u64 \<Rightarrow> bool \<times> radix3" where
  "buildRadix3PageTable getPhysicalSegment alloc st sz =
     (let numPages = (sz + GSP_PAGE_SIZE - 1) div GSP_PAGE_SIZE;
          numL2Tables = (numPages + 511) div 512;
          numL1Tables = (numL2Tables + 511) div 512;
          tableSize = (1 + numL1Tables + numL2Tables) * GSP_PAGE_SIZE
      in case alloc of
           None \<Rightarrow> (False, st\<lparr>radix3Mem := None\<rparr>)
         | Some phys \<Rightarrow>
             let tableBase = replicate (unat tableSize div 8) (0 :: u64);
                 tableBasePhys = phys;
                 rootTable = 0;
                 l1Table = rootTable + 512;
                 l2Table = l1Table + unat numL1Tables * 512;
                 l1Phys = tableBasePhys + GSP_PAGE_SIZE;
                 l2Phys = l1Phys + numL1Tables * GSP_PAGE_SIZE;
                 t1 = fill_level tableBase rootTable l1Phys (unat numL1Tables) 0;
                 t2 = fill_level t1 l1Table l2Phys (unat numL2Tables) 0;
                 (ok, t3) = fill_leaves getPhysicalSegment t2 l2Table (unat numPages) 0
             in (ok, st\<lparr>radix3Mem := Some t3, radix3Phys := phys\<rparr>))"

section \<open>VBIOS parser (NVDAALGsp::parseVbios)\<close>

text \<open>
  Modelled from the spec: the packed structures that \<^verbatim>\<open>parseVbios\<close> lays over the VBIOS
  bytes, which are declared in \<^verbatim>\<open>NVDAALGsp.h\<close>, not among the sources. They are the
  PCI ROM header (16-bit \<^verbatim>\<open>pciDataOffset\<close> at \<open>0x18\<close>), the
  PCIR header (32-bit signature at 0, 16-bit \<^verbatim>\<open>imageLength\<close> at 16, \<^verbatim>\<open>codeType\<close> at 20,
  \<^verbatim>\<open>indicator\<close> at 21, the offsets \<^verbatim>\<open>readVbiosFromBar\<close> uses by hand), the BIT header
  (\<^verbatim>\<open>headerSize\<close>, \<^verbatim>\<open>tokenSize\<close>, \<^verbatim>\<open>tokenCount\<close> at 8, 9, 10 from the \<open>0xFF 0xB8\<close> prefix),
  the 6-byte BIT token (\<^verbatim>\<open>id\<close> at 0, 16-bit \<^verbatim>\<open>dataSize\<close> at 2, 16-bit \<^verbatim>\<open>dataOffset\<close> at
  4), the Falcon data (\<^verbatim>\<open>ucodeTableOffset\<close> at 0), the PMU lookup table header
  (\<^verbatim>\<open>version\<close>, \<^verbatim>\<open>headerSize\<close>, \<^verbatim>\<open>entrySize\<close>, \<^verbatim>\<open>entryCount\<close> at 0 to 3) and its entries
  (Ada: 16-bit \<^verbatim>\<open>appId\<close> at 0, \<^verbatim>\<open>dataOffset\<close> at 2; before Ada: 8-bit \<^verbatim>\<open>appId\<close> at 0,
  \<^verbatim>\<open>dataOffset\<close> at 2), and the binary header (16-bit \<^verbatim>\<open>vendorId\<close> at 0, 16-bit
  \<^verbatim>\<open>version\<close> at 2). The other files of the repository declare these structures the
  same way.

  What remains open is taken as a parameter: the \<^verbatim>\<open>sizeof\<close> of the structures, the place
  of \<^verbatim>\<open>headerOffset\<close> in the binary header, and the places of the fields of
  \<^verbatim>\<open>FalconUcodeDescV3\<close>, all 32 bits wide.
\<close>

record vbios_layout =
  sizeof_VbiosPcirHeader :: u64
  sizeof_BitToken :: u64
  sizeof_BitFalconData :: u64
  sizeof_PmuLookupTableHeader :: u64
  sizeof_NvfwBinHdr :: nat
  offsetof_headerOffset :: nat
  sizeof_FalconUcodeDescV3 :: u64
  offsetof_dataSize :: nat
  offsetof_imemOffset :: nat
  offsetof_imemSize :: nat
  offsetof_imemSecureSize :: nat
  offsetof_dmemOffset :: nat
  offsetof_dmemSize :: nat
  offsetof_sigOffset :: nat
  offsetof_sigSize :: nat
  offsetof_bootVec :: nat

text \<open>
  Modelled from the spec: the constants the parser names, declared in the same header,
  with the values its comments and the specification give: image code type \<open>0xE0\<close>, BIT tokens \<open>0x50\<close> and \<open>0x70\<close>, the PMU table signature
  \<open>01 06 06\<close>, the FWSEC application id \<open>0x85\<close> and the magic "DMAP".
\<close>

definition VBIOS_IMAGE_TYPE_FWSEC :: u8 where "VBIOS_IMAGE_TYPE_FWSEC = 0xE0"
definition BIT_TOKEN_PMU_TABLE :: u8 where "BIT_TOKEN_PMU_TABLE = 0x50"
definition BIT_TOKEN_FALCON_DATA :: u8 where "BIT_TOKEN_FALCON_DATA = 0x70"
definition PMU_TABLE_SIGNATURE_V1 :: u8 where "PMU_TABLE_SIGNATURE_V1 = 1"
definition PMU_TABLE_HEADER_SIZE_V1 :: u8 where "PMU_TABLE_HEADER_SIZE_V1 = 6"
definition PMU_TABLE_ENTRY_SIZE_V1 :: u8 where "PMU_TABLE_ENTRY_SIZE_V1 = 6"
definition FWSEC_APP_ID_FWSEC :: u16 where "FWSEC_APP_ID_FWSEC = 0x85"
definition DMEMMAPPER_SIGNATURE :: u32 where "DMEMMAPPER_SIGNATURE = 0x50414D44"

definition load16 :: "memory \<Rightarrow> nat \<Rightarrow> u16" where
  "load16 m a = ucast (m a) OR push_bit 8 (ucast (m (a + 1)))"

text \<open>The test \<^verbatim>\<open>data[i] == 0x55 && data[i + 1] == 0xAA\<close>.\<close>

definition rom_signature :: "memory \<Rightarrow> nat \<Rightarrow> bool" where
  "rom_signature m a = (m a = 0x55 \<and> m (a + 1) = 0xAA)"

text \<open>
  Step 1, the \<^verbatim>\<open>while (offset < size - 2)\<close> loop over the ROM images, with \<^verbatim>\<open>offset\<close>,
  \<^verbatim>\<open>fwsecStart\<close> and \<^verbatim>\<open>fwsecLen\<close> on \<^verbatim>\<open>uint32_t\<close> and the comparison on \<^verbatim>\<open>size_t\<close>. An
  image of length 0 that is not the last one leaves \<^verbatim>\<open>offset\<close> where it is: the loop then
  never ends, and the result is \<open>None\<close>.
\<close>

partial_function (option) rom_scan ::
  "vbios_layout \<Rightarrow> memory \<Rightarrow> nat \<Rightarrow> u64 \<Rightarrow> u32 \<Rightarrow> u32 \<Rightarrow> u32 \<Rightarrow> (u32 \<times> u32) option" where
  "rom_scan lay m data sz offset fwsecStart fwsecLen =
     (if ucast offset < sz - 2 then
        if offset AND 0x1FF = 0 \<and> rom_signature m (data + unat offset) then
          let pciDataOffset = load16 m (data + unat offset + 0x18)
          in if pciDataOffset = 0 \<or>
                ucast (offset + ucast pciDataOffset) + sizeof_VbiosPcirHeader lay > sz
             then rom_scan lay m data sz (offset + 512) fwsecStart fwsecLen
             else
               let pcir = data + unat offset + unat pciDataOffset
               in if load32 m pcir \<noteq> 0x52494350
                  then rom_scan lay m data sz (offset + 512) fwsecStart fwsecLen
                  else
                    let imageLen = (ucast (load16 m (pcir + 16)) :: u32) * 512;
                        first = (m (pcir + 20) = VBIOS_IMAGE_TYPE_FWSEC \<and> fwsecStart = 0);
                        fwsecStart' = (if first then offset else fwsecStart);
                        fwsecLen' = (if first then imageLen else fwsecLen)
                    in if m (pcir + 21) AND 0x80 \<noteq> 0 then Some (fwsecStart', fwsecLen')
                       else rom_scan lay m data sz (offset + imageLen) fwsecStart' fwsecLen'
        else rom_scan lay m data sz (offset + 512) fwsecStart fwsecLen
      else Some (fwsecStart, fwsecLen))"

text \<open>
  Step 2. The loop that records \<^verbatim>\<open>lastImageStart\<close> (a value nothing reads afterwards),
  the byte-wise search for the pattern \<open>FF B8 'B' 'I' 'T' 00\<close>, and inside it the loop
  that finds the base of the image holding the BIT header. All three count on
  \<^verbatim>\<open>uint32_t\<close> against a \<^verbatim>\<open>size_t\<close> bound.
\<close>

partial_function (option) image_scan ::
  "memory \<Rightarrow> nat \<Rightarrow> u64 \<Rightarrow> u32 \<Rightarrow> u32 \<Rightarrow> u32 option" where
  "image_scan m data sz i lastImageStart =
     (if ucast i < sz - 2
      then image_scan m data sz (i + 512)
             (if rom_signature m (data + unat i) then i else lastImageStart)
      else Some lastImageStart)"

partial_function (option) image_base ::
  "memory \<Rightarrow> nat \<Rightarrow> u64 \<Rightarrow> u32 \<Rightarrow> u32 \<Rightarrow> u32 \<Rightarrow> u32 option" where
  "image_base m data sz bitOffset j imageBase =
     (if ucast j < sz - 2
      then image_base m data sz bitOffset (j + 512)
             (if rom_signature m (data + unat j) \<and> j \<le> bitOffset then j else imageBase)
      else Some imageBase)"

definition bitPattern :: "u8 list" where
  "bitPattern = [0xFF, 0xB8, 0x42, 0x49, 0x54, 0x00]"

partial_function (option) bit_search ::
  "memory \<Rightarrow> nat \<Rightarrow> u64 \<Rightarrow> u32 \<Rightarrow> (u32 \<times> u32) option" where
  "bit_search m data sz i =
     (if ucast i < sz - 6 then
        if read_bytes m (data + unat i) 6 = bitPattern
        then (case image_base m data sz i 0 0 of
                None \<Rightarrow> None
              | Some imageBase \<Rightarrow> Some (i, imageBase))
        else bit_search m data sz (i + 1)
      else Some (0, 0))"

text \<open>
  Step 3, the loop over the BIT tokens, \<^verbatim>\<open>i\<close> counting up to the 8-bit \<^verbatim>\<open>tokenCount\<close>.
  The result is \<open>(pmuTokenOffset, pmuTokenDataSize, falconDataOffset)\<close>.
\<close>

function bit_tokens ::
  "vbios_layout \<Rightarrow> memory \<Rightarrow> nat \<Rightarrow> u64 \<Rightarrow> u32 \<Rightarrow> u8 \<Rightarrow> u8 \<Rightarrow> nat \<Rightarrow> u32 \<Rightarrow>
   u32 \<times> u16 \<times> u32 \<Rightarrow> u32 \<times> u16 \<times> u32" where
  "bit_tokens lay m data sz imageBase tokenCount tokenSize i tokenOffset acc =
     (if i < unat tokenCount \<and> ucast tokenOffset < sz - sizeof_BitToken lay then
        let token = data + unat tokenOffset;
            (pmuTokenOffset, pmuTokenDataSize, falconDataOffset) = acc;
            acc' = (if m token = BIT_TOKEN_PMU_TABLE
                    then (imageBase + ucast (load16 m (token + 4)), load16 m (token + 2),
                          falconDataOffset)
                    else if m token = BIT_TOKEN_FALCON_DATA
                    then (pmuTokenOffset, pmuTokenDataSize,
                          imageBase + ucast (load16 m (token + 4)))
                    else acc)
        in bit_tokens lay m data sz imageBase tokenCount tokenSize (i + 1)
             (tokenOffset + ucast tokenSize) acc'
      else acc)"
  by pat_completeness auto
termination
  by (relation "measure (\<lambda>(lay, m, data, sz, imageBase, tokenCount, tokenSize, i, tokenOffset, acc).
                           unat tokenCount - i)") auto

declare bit_tokens.simps [simp del]

text \<open>
  The signature test of a PMU lookup table header: version 1, header size 6, entry size
  6, between 1 and 32 entries.
\<close>

definition pmu_signature :: "memory \<Rightarrow> nat \<Rightarrow> bool" where
  "pmu_signature m hdr =
     (m hdr = PMU_TABLE_SIGNATURE_V1 \<and> m (hdr + 1) = PMU_TABLE_HEADER_SIZE_V1 \<and>
      m (hdr + 2) = PMU_TABLE_ENTRY_SIZE_V1 \<and> m (hdr + 3) \<ge> 1 \<and> m (hdr + 3) \<le> 32)"

text \<open>
  Step 4, the loop over the 32-bit offsets of token \<open>0x50\<close>: the first candidate that is
  non-zero, leaves room for a table header and carries the signature; 0 when there is
  none.
\<close>

function pmu_candidates ::
  "vbios_layout \<Rightarrow> memory \<Rightarrow> nat \<Rightarrow> u64 \<Rightarrow> nat \<Rightarrow> nat \<Rightarrow> nat \<Rightarrow> u32" where
  "pmu_candidates lay m data sz offsets numOffsets i =
     (if i < numOffsets \<and> i < 64 then
        let candidateOffset = load32 m (offsets + 4 * i)
        in if candidateOffset = 0 \<or>
              ucast candidateOffset + sizeof_PmuLookupTableHeader lay > sz
           then pmu_candidates lay m data sz offsets numOffsets (i + 1)
           else if pmu_signature m (data + unat candidateOffset) then candidateOffset
           else pmu_candidates lay m data sz offsets numOffsets (i + 1)
      else 0)"
  by pat_completeness auto
termination
  by (relation "measure (\<lambda>(lay, m, data, sz, offsets, numOffsets, i). numOffsets - i)") auto

declare pmu_candidates.simps [simp del]

text \<open>
  Step 5, the search by pattern. For a table header with the signature, the inner loop
  looks for an entry whose first byte (the \<^verbatim>\<open>appId\<close> of the entry format before Ada) is
  \<open>0x85\<close>. The outer loop steps by 4 from the given offset while it is below
  \<^verbatim>\<open>size - 0x100\<close>.
\<close>

function pmu_has_fwsec :: "memory \<Rightarrow> nat \<Rightarrow> u64 \<Rightarrow> u8 \<Rightarrow> u8 \<Rightarrow> nat \<Rightarrow> u32 \<Rightarrow> bool" where
  "pmu_has_fwsec m data sz entryCount entrySize i testEntryOffset =
     (if i < unat entryCount \<and> ucast (testEntryOffset + ucast entrySize) \<le> sz then
        if m (data + unat testEntryOffset) = 0x85 then True
        else pmu_has_fwsec m data sz entryCount entrySize (i + 1)
               (testEntryOffset + ucast entrySize)
      else False)"
  by pat_completeness auto
termination
  by (relation "measure (\<lambda>(m, data, sz, entryCount, entrySize, i, testEntryOffset).
                           unat entryCount - i)") auto

declare pmu_has_fwsec.simps [simp del]

partial_function (option) pmu_pattern_search ::
  "memory \<Rightarrow> nat \<Rightarrow> u64 \<Rightarrow> u32 \<Rightarrow> u32 option option" where
  "pmu_pattern_search m data sz searchOffset =
     (if ucast searchOffset < sz - 0x100 then
        let testHdr = data + unat searchOffset
        in if pmu_signature m testHdr \<and>
              pmu_has_fwsec m data sz (m (testHdr + 3)) (m (testHdr + 2)) 0
                (searchOffset + ucast (m (testHdr + 1)))
           then Some (Some searchOffset)
           else pmu_pattern_search m data sz (searchOffset + 4)
      else Some None)"

text \<open>
  Step 6, the loop over the PMU entries, \<^verbatim>\<open>i\<close> counting up to the 8-bit \<^verbatim>\<open>entryCount\<close>.
  An entry for FWSEC (or application 1) whose descriptor does not fit the buffer is
  skipped with \<^verbatim>\<open>continue\<close>, which leaves \<^verbatim>\<open>entryOffset\<close> where it is. The first entry
  that fits ends the loop: the result is
  \<open>(ucodeOffset, ucodeDescOffset, storedSize)\<close>, or \<open>None\<close> when the loop runs out.
\<close>

function pmu_entries ::
  "vbios_layout \<Rightarrow> memory \<Rightarrow> nat \<Rightarrow> u64 \<Rightarrow> u32 \<Rightarrow> bool \<Rightarrow> u8 \<Rightarrow> u8 \<Rightarrow> nat \<Rightarrow> u32 \<Rightarrow>
   (u32 \<times> u32 \<times> u32) option" where
  "pmu_entries lay m data sz fwsecStart isAdaFormat entryCount entrySize i entryOffset =
     (if i < unat entryCount \<and> ucast entryOffset < sz - ucast entrySize then
        let entry = data + unat entryOffset;
            appId = (if isAdaFormat then load16 m entry else ucast (m entry));
            dataOffset = load32 m (entry + 2)
        in if appId = FWSEC_APP_ID_FWSEC \<or> appId = 0x01 then
             let ucodeOffset = (if dataOffset < fwsecStart then dataOffset + fwsecStart
                                else dataOffset)
             in if ucast ucodeOffset + sizeof_FalconUcodeDescV3 lay > sz
                then pmu_entries lay m data sz fwsecStart isAdaFormat entryCount entrySize (i + 1)
                       entryOffset
                else
                  let binHdr = data + unat ucodeOffset;
                      wrapped = (load16 m binHdr = 0x10DE \<and> load16 m (binHdr + 2) \<ge> 1 \<and>
                                 load16 m (binHdr + 2) \<le> 0x10);
                      storedSz = (if wrapped
                                    then load32 m (data + unat ucodeOffset + sizeof_NvfwBinHdr lay)
                                    else 0);
                      ucodeDescOffset = (if wrapped
                                         then ucodeOffset +
                                              load32 m (binHdr + offsetof_headerOffset lay)
                                         else ucodeOffset)
                  in if ucast ucodeDescOffset + sizeof_FalconUcodeDescV3 lay > sz
                     then pmu_entries lay m data sz fwsecStart isAdaFormat entryCount entrySize
                            (i + 1) entryOffset
                     else Some (ucodeOffset, ucodeDescOffset, storedSz)
           else pmu_entries lay m data sz fwsecStart isAdaFormat entryCount entrySize (i + 1)
                  (entryOffset + ucast entrySize)
      else None)"
  by pat_completeness auto
termination
  by (relation "measure (\<lambda>(lay, m, data, sz, fwsecStart, isAdaFormat, entryCount, entrySize, i,
                            entryOffset). unat entryCount - i)") auto

declare pmu_entries.simps [simp del]

text \<open>
  The search for the magic "DMAP" in DMEM, \<^verbatim>\<open>j\<close> stepping by 4 on \<^verbatim>\<open>uint32_t\<close> while it is
  below \<^verbatim>\<open>dmemSize - 4\<close>.
\<close>

partial_function (option) dmap_search :: "memory \<Rightarrow> nat \<Rightarrow> u32 \<Rightarrow> u32 \<Rightarrow> u32 option option" where
  "dmap_search m dmem dmemSz j =
     (if j < dmemSz - 4 then
        if load32 m (dmem + unat j) = DMEMMAPPER_SIGNATURE then Some (Some j)
        else dmap_search m dmem dmemSz (j + 4)
      else Some None)"

text \<open>
  The assignments that store the FWSEC information once the descriptor is found: the
  offsets are the descriptor's own fields added to \<^verbatim>\<open>ucodeDescOffset\<close> on \<^verbatim>\<open>uint32_t\<close>, the
  sizes the descriptor's own fields, and \<^verbatim>\<open>valid\<close> becomes true.
\<close>

definition store_fwsec_info ::
  "vbios_layout \<Rightarrow> memory \<Rightarrow> nat \<Rightarrow> u32 \<Rightarrow> u32 \<Rightarrow> u32 \<Rightarrow> FalconUcodeInfo \<Rightarrow> FalconUcodeInfo" where
  "store_fwsec_info lay m data ucodeOffset ucodeDescOffset storedSize' info =
     (let ucode = data + unat ucodeDescOffset
      in info\<lparr>fwOffset := ucodeOffset,
              storedSize := (if storedSize' > 0 then storedSize'
                             else load32 m (ucode + offsetof_dataSize lay)),
              imemOffset := ucodeDescOffset + load32 m (ucode + offsetof_imemOffset lay),
              imemSize := load32 m (ucode + offsetof_imemSize lay),
              imemSecSize := load32 m (ucode + offsetof_imemSecureSize lay),
              dmemOffset := ucodeDescOffset + load32 m (ucode + offsetof_dmemOffset lay),
              dmemSize := load32 m (ucode + offsetof_dmemSize lay),
              sigOffset := ucodeDescOffset + load32 m (ucode + offsetof_sigOffset lay),
              sigSize := load32 m (ucode + offsetof_sigSize lay),
              bootVec := load32 m (ucode + offsetof_bootVec lay),
              valid := True\<rparr>)"

text \<open>
  Steps 4, 4b and 5: from the tokens to the PMU table. The result is \<open>Inl r\<close> when
  \<^verbatim>\<open>parseVbios\<close> returns \<open>r\<close> here (with \<^verbatim>\<open>valid\<close> set to false when \<open>r\<close> is true), and
  otherwise \<open>Inr (pmuTableOffset, pmuHdr)\<close> with the table header as an offset into the
  buffer. The search by pattern is entered only with a table header in hand that looks
  invalid; when it finds nothing, the header in hand is kept.
\<close>

definition parseVbios_table ::
  "vbios_layout \<Rightarrow> memory \<Rightarrow> nat \<Rightarrow> u64 \<Rightarrow> u32 \<Rightarrow> u32 \<Rightarrow> u16 \<Rightarrow> u32 \<Rightarrow>
   (bool + u32 \<times> nat) option" where
  "parseVbios_table lay m data sz imageBase pmuTokenOffset pmuTokenDataSize falconDataOffset =
     (if pmuTokenOffset \<noteq> 0 \<and> pmuTokenDataSize \<ge> 2 \<and>
         ucast (pmuTokenOffset + ucast pmuTokenDataSize) > sz
      then Some (Inl False)
      else
        let pmuTableOffset4 =
              (if pmuTokenOffset \<noteq> 0 \<and> pmuTokenDataSize \<ge> 2
               then pmu_candidates lay m data sz (data + unat pmuTokenOffset)
                      (unat pmuTokenDataSize div 4) 0
               else 0);
            pmuHdr4 = (if pmuTableOffset4 = 0 then None else Some (unat pmuTableOffset4))
        in if pmuTableOffset4 = 0 \<and> falconDataOffset \<noteq> 0 \<and>
              ucast falconDataOffset + sizeof_BitFalconData lay > sz
           then Some (Inl False)
           else
             let pmuTableOffset =
                   (if pmuTableOffset4 = 0 \<and> falconDataOffset \<noteq> 0
                    then imageBase + load32 m (data + unat falconDataOffset)
                    else pmuTableOffset4);
                 pmuHdr =
                   (if pmuTableOffset4 = 0 \<and> falconDataOffset \<noteq> 0
                    then (if ucast pmuTableOffset + sizeof_PmuLookupTableHeader lay \<le> sz
                          then Some (unat pmuTableOffset) else None)
                    else pmuHdr4)
             in case pmuHdr of
                  None \<Rightarrow> Some (Inl True)
                | Some hdr \<Rightarrow>
                    if pmuTableOffset = 0 then Some (Inl True)
                    else if m (data + hdr + 3) = 0 \<or> m (data + hdr) > 10 \<or>
                            m (data + hdr + 2) < 4 \<or> m (data + hdr + 2) > 200
                    then (case pmu_pattern_search m data sz 0x9000 of
                            None \<Rightarrow> None
                          | Some None \<Rightarrow> Some (Inr (pmuTableOffset, hdr))
                          | Some (Some found) \<Rightarrow> Some (Inr (found, unat found)))
                    else Some (Inr (pmuTableOffset, hdr)))"

text \<open>
  Step 6 and the search for the DMEM mapper, on the table found. When no entry
  qualifies, \<^verbatim>\<open>fwsecInfo\<close> is left as it was. The first component of the result is the
  value returned, \<open>None\<close> when the search for the DMEM mapper never ends; the second is
  the controller with \<^verbatim>\<open>fwsecInfo\<close> as the assignments left it, which in that case is
  the state in which the loop spins.
\<close>

definition parseVbios_ucode ::
  "vbios_layout \<Rightarrow> gsp \<Rightarrow> nat \<Rightarrow> u64 \<Rightarrow> u32 \<Rightarrow> u32 \<Rightarrow> nat \<Rightarrow> bool option \<times> gsp" where
  "parseVbios_ucode lay s data sz fwsecStart pmuTableOffset hdr =
     (let m = mem s;
          headerSize = m (data + hdr + 1);
          entrySize = m (data + hdr + 2);
          entryCount = m (data + hdr + 3);
          entryOffset = pmuTableOffset + ucast headerSize;
          isAdaFormat = (headerSize = 6 \<and> entrySize = 6)
      in case pmu_entries lay m data sz fwsecStart isAdaFormat entryCount entrySize 0 entryOffset of
           None \<Rightarrow> (Some True, s)
         | Some (ucodeOffset, ucodeDescOffset, storedSize') \<Rightarrow>
             let info = store_fwsec_info lay m data ucodeOffset ucodeDescOffset storedSize'
                          (fwsecInfo s);
                 s2 = s\<lparr>fwsecInfo := info\<rparr>
             in if ucast (dmemOffset info + dmemSize info) \<le> sz
                then (case dmap_search m (data + unat (dmemOffset info)) (dmemSize info) 0 of
                        None \<Rightarrow> (None, s2)
                      | Some None \<Rightarrow> (Some True, s2)
                      | Some (Some j) \<Rightarrow>
                          (Some True, s2\<lparr>fwsecInfo := info\<lparr>dmemMapperOffset := j\<rparr>\<rparr>))
                else (Some True, s2))"

text \<open>
  The body of \<^verbatim>\<open>NVDAALGsp::parseVbios(vbios, size)\<close>: the buffer is the \<open>sz\<close> bytes of
  host memory at \<open>data\<close>. As above, the first component is the value returned, \<open>None\<close>
  when one of the loops does not end, and the second the controller as the call leaves
  it, or as the loop that never ends found it.
\<close>

definition parseVbios_run :: "vbios_layout \<Rightarrow> gsp \<Rightarrow> nat \<Rightarrow> u64 \<Rightarrow> bool option \<times> gsp" where
  "parseVbios_run lay s data sz =
     (let m = mem s
      in case rom_scan lay m data sz 0 0 0 of
           None \<Rightarrow> (None, s)
         | Some (fwsecStart, fwsecLen) \<Rightarrow>
             let s1 = (if fwsecStart = 0 then s
                       else s\<lparr>fwsecImageOffset := fwsecStart, fwsecImageSize := fwsecLen\<rparr>)
             in case image_scan m data sz 0 0 of
                  None \<Rightarrow> (None, s1)
                | Some lastImageStart \<Rightarrow>
                    (case bit_search m data sz 0 of
                       None \<Rightarrow> (None, s1)
                     | Some (bitOffset, imageBase) \<Rightarrow>
                         if bitOffset = 0
                         then (Some True, s1\<lparr>fwsecInfo := (fwsecInfo s1)\<lparr>valid := False\<rparr>\<rparr>)
                         else
                           let bit = data + unat bitOffset;
                               tokenOffset = bitOffset + ucast (m (bit + 8));
                               (pmuTokenOffset, pmuTokenDataSize, falconDataOffset) =
                                 bit_tokens lay m data sz imageBase (m (bit + 10)) (m (bit + 9)) 0
                                   tokenOffset (0, 0, 0)
                           in case parseVbios_table lay m data sz imageBase pmuTokenOffset
                                     pmuTokenDataSize falconDataOffset of
                                None \<Rightarrow> (None, s1)
                              | Some (Inl False) \<Rightarrow> (Some False, s1)
                              | Some (Inl True) \<Rightarrow>
                                  (Some True, s1\<lparr>fwsecInfo := (fwsecInfo s1)\<lparr>valid := False\<rparr>\<rparr>)
                              | Some (Inr (pmuTableOffset, hdr)) \<Rightarrow>
                                  parseVbios_ucode lay s1 data sz fwsecStart pmuTableOffset hdr))"

text \<open>
  The call seen from its caller: the value returned and the controller after it, and
  \<open>None\<close> when the call does not return.
\<close>

definition parseVbios :: "vbios_layout \<Rightarrow> gsp \<Rightarrow> nat \<Rightarrow> u64 \<Rightarrow> (bool \<times> gsp) option" where
  "parseVbios lay s data sz =
     (case parseVbios_run lay s data sz of
        (None, s') \<Rightarrow> None
      | (Some r, s') \<Rightarrow> Some (r, s'))"

section \<open>Concrete inputs\<close>

text \<open>
  An example catalogue. Where the documents of the repository give a value it is used
  (the WPR2 registers with bit 31 as the enabled bit, the GSP Falcon base and its
  registers, the RISC-V \<^verbatim>\<open>CPUCTL\<close> and \<^verbatim>\<open>BR_RETCODE\<close>, the queue tail registers, the
  RPC signature and function numbers); the other entries are placeholders.
\<close>

definition catalog_ex :: catalog where
  "catalog_ex =
     \<lparr>NV_PFB_PRI_MMU_WPR2_ADDR_HI = 0x1FA828,
      NV_PFB_PRI_MMU_WPR2_ADDR_LO = 0x1FA824,
      NV_PFB_PRI_MMU_WPR2_ADDR_LO_VAL = 0x1FA820,
      NV_PFB_WPR2_ENABLED = (\<lambda>v. v AND 0x80000000 \<noteq> 0),
      NV_PGSP_BASE = 0x110000,
      NV_PGSP_FALCON_CPUCTL = 0x110100,
      NV_PGSP_FALCON_MAILBOX0 = 0x110040,
      FALCON_BOOTVEC = 0x104,
      FALCON_CPUCTL_HALTED = 0x10,
      FALCON_CPUCTL_STARTCPU = 0x2,
      NV_PBUS_SW_SCRATCH_0E = 0x1438,
      NV_PRISCV_RISCV_CPUCTL = 0x110388,
      NV_PRISCV_RISCV_BCR_CTRL = 0x110668,
      NV_PRISCV_RISCV_BCR_DMEM_ADDR = 0x110670,
      NV_PRISCV_RISCV_BR_RETCODE = 0x110400,
      NV_PRISCV_RISCV_BCR_CTRL_VALID = 0x1,
      NV_PRISCV_CPUCTL_START = 0x1,
      NV_PRISCV_CPUCTL_ACTIVE = 0x80,
      NV_PGC6_BSI_SECURE_SCRATCH_14 = 0x118F58,
      NV_PGSP_QUEUE_TAIL = (\<lambda>i. 0x110C80 + i * 8),
      GSP_CMDQ_IDX = 0,
      NV_VGPU_MSG_SIGNATURE_VALID = 0x43505256,
      NV_VGPU_MSG_FUNCTION_GSP_SET_SYSTEM_INFO = 0x15,
      NV_VGPU_MSG_FUNCTION_GSP_RM_ALLOC = 0x24,
      NV_VGPU_MSG_FUNCTION_GSP_RM_CONTROL = 0x25,
      DMEMMAPPER_CMD_FRTS = 0x15,
      sizeof_DmemMapperHeader = 0x40,
      offsetof_initCmd = 0x20\<rparr>"

text \<open>A device that stores what is written and does nothing else.\<close>

definition device_inert :: device where
  "device_inert = \<lparr>on_write = (\<lambda>a v r. r(a := v)), on_delay = (\<lambda>n r. r)\<rparr>"

definition info_none :: FalconUcodeInfo where
  "info_none =
     \<lparr>fwOffset = 0, storedSize = 0, imemOffset = 0, imemSize = 0, imemSecSize = 0,
      dmemOffset = 0, dmemSize = 0, sigOffset = 0, sigSize = 0, bootVec = 0,
      dmemMapperOffset = 0, valid = False\<rparr>"

text \<open>
  A controller after \<^verbatim>\<open>init\<close> with the GSP ready: zeroed memory, an empty command
  queue at address \<open>0x100000\<close>.
\<close>

definition gsp_ex :: gsp where
  "gsp_ex =
     \<lparr>regs = (\<lambda>a. 0), trace = [], mem = (\<lambda>x. 0), cmdQueue = Some 0x100000,
      cmdQueueHead = 0, cmdQueueTail = 0, rpcSeqNum = 0, gspReady = True,
      wpr2Lo = 0, wpr2Hi = 0, fwsecMem = None, fwsecPhys = 0, fwsecInfo = info_none,
      fwsecImageOffset = 0, fwsecImageSize = 0, wprMetaPhys = 0, iolog = []\<rparr>"

text \<open>
  A device on which the core is active as soon as it is started, while \<^verbatim>\<open>BR_RETCODE\<close>
  still holds a non-zero code other than \<open>0xbadf5040\<close>; and one on which the core
  becomes active during the first delay, after one poll has seen such a code.
\<close>

definition device_stale_retcode :: device where
  "device_stale_retcode =
     \<lparr>on_write = (\<lambda>a v r. if a = 0x110388 then r(0x110388 := 0x80, 0x110400 := 0xdead0001)
                           else r(a := v)),
      on_delay = (\<lambda>n r. r)\<rparr>"

definition device_late_active :: device where
  "device_late_active =
     \<lparr>on_write = (\<lambda>a v r. if a = 0x110388 then r(0x110388 := 0, 0x110400 := 0xdead0001)
                           else r(a := v)),
      on_delay = (\<lambda>n r. r(0x110388 := 0x80))\<rparr>"

text \<open>
  Callees that fail at once, and the example controller with \<open>0x80000001\<close> in
  \<^verbatim>\<open>WPR2_ADDR_HI\<close>.
\<close>

definition callees_fail :: callees where
  "callees_fail =
     \<lparr>parseVbios_call = (\<lambda>s d n. (False, s)),
      executeFwsecViaBrom_call = (\<lambda>s. (False, s)),
      loadFalconUcodeDma_call = (\<lambda>s b p n v. (False, s)),
      loadFalconUcode_call = (\<lambda>s b i n d m. (False, s))\<rparr>"

definition gsp_wpr2_set :: gsp where
  "gsp_wpr2_set = gsp_ex\<lparr>regs := (\<lambda>a. if a = 0x1FA828 then 0x80000001 else 0)\<rparr>"

text \<open>A booted channel about to wrap, and a one-page descriptor, as concrete inputs.\<close>

definition channel_ex :: channel where
  "channel_ex =
     \<lparr>gpfifoRing = Some (replicate 0x1000 \<lparr>address = 0, length_ = 0, flags = 0\<rparr>),
      ringSize = 0x1000, put = 0xFFF, get = 0, userd = Some (replicate 0x400 0)\<rparr>"

definition desc_ex :: io_desc where
  "desc_ex = \<lparr>desc_len = 0x1000, desc_phys = 0x80000000\<rparr>"

text \<open>
  Concrete inputs for the table builder: no table held, a descriptor whose second page
  has no physical address, and one whose pages follow each other from \<open>0x200000\<close>.
\<close>

definition radix3_none :: radix3 where
  "radix3_none = \<lparr>radix3Mem = None, radix3Phys = 0\<rparr>"

definition segment_second_fails :: "u64 \<Rightarrow> u64" where
  "segment_second_fails off = (if off = 0 then 0x5000 else 0)"

definition segment_linear :: "u64 \<Rightarrow> u64" where
  "segment_linear off = 0x200000 + off"

text \<open>A descriptor whose second page has no physical address, the others as before.\<close>

definition segment_middle_fails :: "u64 \<Rightarrow> u64" where
  "segment_middle_fails off = (if off = 0x1000 then 0 else 0x200000 + off)"

text \<open>
  An example layout for the VBIOS structures: the sizes the packed declarations of the
  repository's other files give (24-byte PCIR header, 6-byte BIT token, 8-byte Falcon
  data, 6-byte PMU table header, 24-byte binary header with \<^verbatim>\<open>headerOffset\<close> at 12), the
  44 bytes the documents give for the descriptor, and for its fields consecutive 32-bit
  places from offset 4 on, which are placeholders.
\<close>

definition layout_ex :: vbios_layout where
  "layout_ex =
     \<lparr>sizeof_VbiosPcirHeader = 24, sizeof_BitToken = 6, sizeof_BitFalconData = 8,
      sizeof_PmuLookupTableHeader = 6, sizeof_NvfwBinHdr = 24, offsetof_headerOffset = 12,
      sizeof_FalconUcodeDescV3 = 44, offsetof_dataSize = 4, offsetof_imemOffset = 8,
      offsetof_imemSize = 12, offsetof_imemSecureSize = 16, offsetof_dmemOffset = 20,
      offsetof_dmemSize = 24, offsetof_sigOffset = 28, offsetof_sigSize = 32,
      offsetof_bootVec = 36\<rparr>"

text \<open>
  A BIT header (12 bytes, one token of 6 bytes) followed by its token \<open>0x50\<close>, whose data
  are 4 bytes at offset \<open>0x20\<close> of the image.
\<close>

definition bit_header_ex :: "u8 list" where
  "bit_header_ex =
     [0xFF, 0xB8, 0x42, 0x49, 0x54, 0x00, 0x00, 0x01, 12, 6, 1, 0,
      0x50, 1, 4, 0, 0x20, 0]"

text \<open>
  The first 128 bytes of a VBIOS, as a buffer at address 0: the BIT header at offset 2,
  the candidate offset \<open>0x28\<close> at \<open>0x20\<close>, a PMU table at \<open>0x28\<close> with the one entry
  \<open>{appId = 0x0085, dataOffset = 0x40}\<close>, and at \<open>0x40\<close> a descriptor with no binary header
  in front, 64 KiB of IMEM at \<open>0x2C\<close> and 4 KiB of DMEM behind it, all relative to the
  descriptor. The code and data themselves are beyond the 128 bytes.
\<close>

definition vbios_truncated :: memory where
  "vbios_truncated =
     memcpy (memcpy (memcpy (memcpy (\<lambda>a. 0) 2 bit_header_ex)
       0x20 [0x28, 0, 0, 0])
       0x28 [1, 6, 6, 1, 0, 0, 0x85, 0, 0x40, 0, 0, 0])
       0x40 [0, 0, 0, 0, 0x00, 0x01, 0, 0, 0x2C, 0, 0, 0, 0x00, 0x00, 0x01, 0,
             0x00, 0x00, 0x01, 0, 0x2C, 0x00, 0x01, 0, 0x00, 0x10, 0, 0,
             0x2C, 0x10, 0x01, 0, 0x80, 0x01, 0, 0, 0, 0, 0, 0, 0, 0, 0, 0]"

definition gsp_truncated :: gsp where
  "gsp_truncated = gsp_ex\<lparr>mem := vbios_truncated\<rparr>"





text \<open>
  A VBIOS of \<open>0x9200\<close> bytes at address 0 with the same BIT header and token \<open>0x50\<close>, no
  token \<open>0x70\<close>, nothing at the candidate offset \<open>0x28\<close>, and at \<open>0x9000\<close> a PMU table
  \<open>01 06 06 01\<close> whose one entry starts with the byte \<open>0x85\<close>.
\<close>

definition vbios_unlisted :: memory where
  "vbios_unlisted =
     memcpy (memcpy (memcpy (\<lambda>a. 0) 2 bit_header_ex)
       0x20 [0x28, 0, 0, 0])
       0x9000 [1, 6, 6, 1, 0, 0, 0x85, 0, 0x00, 0x91, 0, 0]"

definition gsp_unlisted :: gsp where
  "gsp_unlisted = gsp_ex\<lparr>mem := vbios_unlisted\<rparr>"

section \<open>Properties of the compute channel\<close>

lemma put_bound:
  fixes p :: u32
  assumes "p < 0x1000"
  shows "unat p < 4096" and "unat ((p + 1) mod 0x1000) = (unat p + 1) mod 4096"
proof -
  from assms show a: "unat p < 4096"
    by (simp add: word_less_nat_alt)
  then have "unat (p + 1) = unat p + 1"
    by (simp add: unat_word_ariths)
  then show "unat ((p + 1) mod 0x1000) = (unat p + 1) mod 4096"
    by (simp add: unat_mod)
qed

text \<open>
  C10. On a booted channel \<^verbatim>\<open>submit\<close> returns true for every address and length and
  checks no ring occupancy: the entry at the current put index is overwritten with
  \<open>{address, length, flags = 1}\<close> whatever it held and whatever \<^verbatim>\<open>get\<close> is, put advances
  by one modulo the 4096 entries of the ring, and the new put value is stored to word 0 of
  UserD.
\<close>

theorem submit_always_true:
  assumes "channel_booted c"
  shows "\<exists>ring u. gpfifoRing c = Some ring \<and> userd c = Some u \<and>
           submit c a l =
             Inr (True,
                  c\<lparr>gpfifoRing := Some (ring[unat (put c) :=
                                      \<lparr>address = a, length_ = l, flags = 1\<rparr>]),
                    put := (put c + 1) mod 0x1000,
                    userd := Some (u[0 := (put c + 1) mod 0x1000])\<rparr>) \<and>
           unat ((put c + 1) mod 0x1000) = (unat (put c) + 1) mod 4096 \<and>
           submit (c\<lparr>get := g\<rparr>) a l =
             map_sum id (\<lambda>(r, c'). (r, c'\<lparr>get := g\<rparr>)) (submit c a l)"
proof -
  from assms obtain ring u where r: "gpfifoRing c = Some ring" "length ring = 0x1000"
    and u: "userd c = Some u" "length u = 0x400"
    and s: "ringSize c = 0x1000" and p: "put c < 0x1000"
    by (auto simp: channel_booted_def split: option.splits)
  from u(2) obtain w ws where uw: "u = w # ws"
    by (cases u) auto
  have pb: "unat (put c) < length ring"
    using put_bound(1) [OF p] r(2) by simp
  have "submit c a l =
          Inr (True,
               c\<lparr>gpfifoRing := Some (ring[unat (put c) :=
                                   \<lparr>address = a, length_ = l, flags = 1\<rparr>]),
                 put := (put c + 1) mod 0x1000,
                 userd := Some (u[0 := (put c + 1) mod 0x1000])\<rparr>)"
    using r u s pb uw by (simp add: submit_def Let_def)
  moreover have "submit (c\<lparr>get := g\<rparr>) a l =
             map_sum id (\<lambda>(r, c'). (r, c'\<lparr>get := g\<rparr>)) (submit c a l)"
    using r u s pb uw by (simp add: submit_def Let_def)
  ultimately show ?thesis
    using r(1) u(1) put_bound(2) [OF p] by blast
qed

theorem submit_always_true_witness:
  "channel_booted channel_ex \<and>
   (case submit channel_ex 0x5000 64 of
      Inl e \<Rightarrow> False
    | Inr (r, c') \<Rightarrow> r \<and> put c' = 0)"
proof -
  have b: "channel_booted channel_ex"
    by (simp add: channel_booted_def channel_ex_def)
  from submit_always_true [of channel_ex "0x5000" 64 0, OF b]
  show ?thesis using b by (auto simp: channel_ex_def)
qed

section \<open>Properties of the virtual address space\<close>

lemma and_not_mask_push_drop:
  "(w :: 'a::len word) AND NOT (mask k) = push_bit k (drop_bit k w)"
  by (rule bit_word_eqI) (auto simp: bit_simps)

lemma unat_and_not_mask:
  "unat ((w :: 'a::len word) AND NOT (mask k)) = (unat w div 2 ^ k) * 2 ^ k"
proof -
  have "unat (push_bit k (drop_bit k w)) =
          take_bit LENGTH('a) (push_bit k (drop_bit k (unat w)))"
    by (simp add: unsigned_push_bit_eq unat_drop_bit_eq)
  also have "push_bit k (drop_bit k (unat w)) = (unat w div 2 ^ k) * 2 ^ k"
    by (simp add: push_bit_eq_mult drop_bit_eq_div)
  also have "take_bit LENGTH('a) ((unat w div 2 ^ k) * 2 ^ k) = (unat w div 2 ^ k) * 2 ^ k"
  proof -
    have "(unat w div 2 ^ k) * 2 ^ k \<le> unat w" by simp
    also have "\<dots> < 2 ^ LENGTH('a)" by simp
    finally show ?thesis by (simp add: take_bit_nat_eq_self)
  qed
  finally show ?thesis by (simp add: and_not_mask_push_drop)
qed

text \<open>Rounding up to a power of two, as the source writes it, when the sum does not wrap.\<close>

lemma align_up_unat:
  fixes c :: "'a::len word"
  assumes k: "k < LENGTH('a)" and nw: "unat c + 2 ^ k \<le> 2 ^ LENGTH('a)"
  shows "unat ((c + (2 ^ k - 1)) AND NOT (2 ^ k - 1)) = ((unat c + (2 ^ k - 1)) div 2 ^ k) * 2 ^ k"
proof -
  have m: "(2 ^ k - 1 :: 'a word) = mask k"
    by (simp add: mask_eq_exp_minus_1)
  have "uint (mask k :: 'a word) = mask k"
    using k by (simp add: uint_mask_eq min_def)
  then have "unat (mask k :: 'a word) = nat (mask k)"
    by (simp add: unat_eq_nat_uint)
  also have "\<dots> = 2 ^ k - 1"
    by (simp add: mask_eq_exp_minus_1 nat_diff_distrib nat_power_eq)
  finally have um: "unat (mask k :: 'a word) = 2 ^ k - 1" .
  have p: "(1::nat) \<le> 2 ^ k"
    by simp
  have "unat c + unat (mask k :: 'a word) < 2 ^ LENGTH('a)"
    using nw um p by linarith
  then have "unat (c + mask k) = unat c + (2 ^ k - 1)"
    using um by (simp add: unat_add_lem [THEN iffD1])
  then show ?thesis
    by (simp add: m unat_and_not_mask)
qed

lemma round_up_nat:
  fixes c :: nat
  assumes "0 < a"
  shows "c \<le> ((c + (a - 1)) div a) * a" and "((c + (a - 1)) div a) * a < c + a"
proof -
  let ?q = "(c + (a - 1)) div a"
  have e: "?q * a + (c + (a - 1)) mod a = c + (a - 1)"
    by simp
  have l: "(c + (a - 1)) mod a < a"
    using assms by simp
  from e l show "c \<le> ?q * a" by linarith
  from e assms show "?q * a < c + a" by linarith
qed

text \<open>
  C8, as the claim states its first part: a range starting at \<open>0x1_0000_0000\<close>. The source
  starts the range at \<open>0x10_0000_0000\<close>.
\<close>

theorem vaspace_default_range_counterexample:
  "vaStart (vaspace_init vaspace_fresh) \<noteq> 0x100000000 \<and>
   fst (map_va (vaspace_init vaspace_fresh) (Some desc_ex) 0x1000) = 0x1000000000"
  by (simp add: vaspace_init_def vaspace_fresh_def map_va_def desc_ex_def Let_def)

text \<open>
  C8, amended. A freshly initialised VA-Space has the range
  \<open>[0x10_0000_0000, 0xFF_FFFF_FFFF]\<close> and its free pointer at the start. For a power-of-two
  alignment \<open>2 ^ k\<close>, where neither the rounding nor the addition of the length wraps
  around 64 bits, \<^verbatim>\<open>map\<close> rounds the free pointer up to the next multiple of the alignment
  (which is not below the free pointer, so not below the range start when the free pointer
  is not), returns 0 and changes nothing when that address plus the length exceeds the
  limit, and otherwise returns that address and moves the free pointer to it plus the
  length.
\<close>

theorem map_va_bump_allocates:
  fixes v :: vaspace and d :: io_desc
  assumes "k < 64"
    and "unat (currentVaOffset v) + 2 ^ k \<le> 2 ^ 64"
    and "unat ((currentVaOffset v + (2 ^ k - 1)) AND NOT (2 ^ k - 1)) + unat (desc_len d) < 2 ^ 64"
  shows "vaStart (vaspace_init w) = 0x1000000000 \<and>
         vaLimit (vaspace_init w) = 0xFFFFFFFFFF \<and>
         currentVaOffset (vaspace_init w) = 0x1000000000 \<and>
         (let cur = currentVaOffset v;
              av = (cur + (2 ^ k - 1)) AND NOT (2 ^ k - 1)
          in unat av = ((unat cur + (2 ^ k - 1)) div 2 ^ k) * 2 ^ k \<and>
             cur \<le> av \<and> unat av < unat cur + 2 ^ k \<and>
             (vaStart v \<le> cur \<longrightarrow> vaStart v \<le> av) \<and>
             map_va v (Some d) (2 ^ k) =
               (if unat (vaLimit v) < unat av + unat (desc_len d) then (0, v)
                else (av, v\<lparr>currentVaOffset := av + desc_len d\<rparr>)) \<and>
             unat (av + desc_len d) = unat av + unat (desc_len d))"
proof -
  define cur where "cur = currentVaOffset v"
  define av where "av = (cur + (2 ^ k - 1)) AND NOT (2 ^ k - 1)"
  have ua: "unat av = ((unat cur + (2 ^ k - 1)) div 2 ^ k) * 2 ^ k"
    unfolding av_def using assms(1,2) by (intro align_up_unat) (simp_all add: cur_def)
  have ge: "unat cur \<le> unat av" and lt: "unat av < unat cur + 2 ^ k"
    unfolding ua using round_up_nat [of "2 ^ k" "unat cur"] by simp_all
  have le: "cur \<le> av"
    using ge by (simp add: word_le_nat_alt)
  have sum: "unat (av + desc_len d) = unat av + unat (desc_len d)"
    using assms(3) by (simp add: av_def cur_def unat_add_lem [THEN iffD1])
  have cmp: "(av + desc_len d > vaLimit v) = (unat (vaLimit v) < unat av + unat (desc_len d))"
    by (simp add: word_less_nat_alt sum)
  have m: "map_va v (Some d) (2 ^ k) =
             (if unat (vaLimit v) < unat av + unat (desc_len d) then (0, v)
              else (av, v\<lparr>currentVaOffset := av + desc_len d\<rparr>))"
    using cmp by (simp add: map_va_def Let_def av_def cur_def)
  have i: "vaStart (vaspace_init w) = 0x1000000000 \<and>
           vaLimit (vaspace_init w) = 0xFFFFFFFFFF \<and>
           currentVaOffset (vaspace_init w) = 0x1000000000"
    by (simp add: vaspace_init_def Let_def)
  from ua le lt m sum i show ?thesis
    unfolding Let_def cur_def [symmetric] av_def [symmetric] by auto
qed

theorem map_va_bump_allocates_witness:
  "(12::nat) < 64 \<and>
   map_va (vaspace_init vaspace_fresh) (Some desc_ex) (2 ^ 12) =
     (0x1000000000, (vaspace_init vaspace_fresh)\<lparr>currentVaOffset := 0x1000001000\<rparr>)"
proof -
  let ?v = "vaspace_init vaspace_fresh"
  have c: "currentVaOffset ?v = 0x1000000000" and l: "vaLimit ?v = 0xFFFFFFFFFF"
    by (simp_all add: vaspace_init_def vaspace_fresh_def Let_def)
  have a: "(0x1000000000 + (2 ^ 12 - 1) :: u64) AND NOT (2 ^ 12 - 1) = 0x1000000000"
    by simp
  have h1: "(12::nat) < 64" by simp
  have h2: "unat (currentVaOffset ?v) + 2 ^ 12 \<le> 2 ^ 64"
    by (simp add: c)
  have h3: "unat ((currentVaOffset ?v + (2 ^ 12 - 1)) AND NOT (2 ^ 12 - 1)) + unat (desc_len desc_ex)
              < 2 ^ 64"
    by (simp add: c a desc_ex_def)
  from map_va_bump_allocates [OF h1 h2 h3, of vaspace_fresh]
  show ?thesis
    by (simp add: Let_def c l a desc_ex_def)
qed

section \<open>Properties of host memory and of the checksum\<close>

lemma bytes_recompose:
  fixes w :: u32
  shows "ucast (ucast w :: u8) OR push_bit 8 (ucast (ucast (drop_bit 8 w) :: u8)) OR
         push_bit 16 (ucast (ucast (drop_bit 16 w) :: u8)) OR
         push_bit 24 (ucast (ucast (drop_bit 24 w) :: u8)) = w"
  apply (rule bit_word_eqI)
  apply (simp add: bit_simps)
  apply (auto simp: not_less)
  subgoal for n by (cases "24 \<le> n") auto
  done

lemma load32_store32: "load32 (store32 m a w) a = w"
  by (simp add: load32_def store32_def bytes_recompose)

lemma crc_bit_shift: "crc_bit c = crc32_shift c"
proof (cases "bit c 0")
  case True
  then have "c AND 1 = 1"
    by (simp add: and_one_eq mod_2_eq_odd bit_0)
  then show ?thesis
    using True by (simp add: crc_bit_def crc32_shift_def)
next
  case False
  then have "c AND 1 = 0"
    by (simp add: and_one_eq mod_2_eq_odd bit_0)
  then show ?thesis
    using False by (simp add: crc_bit_def crc32_shift_def)
qed

lemma calcChecksum_reference: "calcChecksum bs = crc32_reference bs"
proof -
  have "crc_bit = crc32_shift"
    by (rule ext) (rule crc_bit_shift)
  then have "crc_byte = crc32_update"
    by (intro ext) (simp add: crc_byte_def crc32_update_def)
  moreover have "(0xFFFFFFFF :: u32) = - 1"
    by simp
  ultimately show ?thesis
    by (simp only: calcChecksum_def crc32_reference_def bit.xor_one_right)
qed

lemma crc_byte_unfold:
  "crc_byte c b =
     crc_bit (crc_bit (crc_bit (crc_bit (crc_bit (crc_bit (crc_bit (crc_bit (c XOR ucast b))))))))"
  by (simp add: crc_byte_def numeral_eq_Suc)

lemma calcChecksum_check_value: "calcChecksum check_input = 0xCBF43926"
  by (simp add: calcChecksum_def check_input_def crc_byte_unfold crc_bit_def)

section \<open>Properties of the RPC transport and of the Resource-Manager client\<close>

lemma store32_other:
  "x < a \<or> a + 4 \<le> x \<Longrightarrow> store32 m a w x = m x"
  by (auto simp: store32_def)

lemma load32_store32_other:
  "a + 4 \<le> b \<or> b + 4 \<le> a \<Longrightarrow> load32 (store32 m a w) b = load32 m b"
  by (auto simp: load32_def store32_other)

lemma memcpy_other:
  "x < d \<or> d + length bs \<le> x \<Longrightarrow> memcpy m d bs x = m x"
  by (auto simp: memcpy_def)

lemma load32_memcpy_other:
  "b + 4 \<le> d \<or> d + length bs \<le> b \<Longrightarrow> load32 (memcpy m d bs) b = load32 m b"
  by (auto simp: load32_def memcpy_other)

lemma length_read_bytes [simp]: "length (read_bytes m a n) = n"
  by (simp add: read_bytes_def)

lemma read_bytes_cong:
  "(\<And>x. a \<le> x \<Longrightarrow> x < a + n \<Longrightarrow> m x = m' x) \<Longrightarrow> read_bytes m a n = read_bytes m' a n"
  by (simp add: read_bytes_def)

lemma read_bytes_store32_other:
  "a + 4 \<le> b \<or> b + n \<le> a \<Longrightarrow> read_bytes (store32 m a w) b n = read_bytes m b n"
  by (rule read_bytes_cong) (auto simp: store32_other)

lemma read_bytes_memcpy_same:
  "read_bytes (memcpy m d bs) d (length bs) = bs"
  by (rule nth_equalityI) (simp_all add: read_bytes_def memcpy_def)

lemma read_bytes_memcpy_other:
  "b + n \<le> d \<or> d + length bs \<le> b \<Longrightarrow> read_bytes (memcpy m d bs) b n = read_bytes m b n"
  by (rule read_bytes_cong) (auto simp: memcpy_other)

lemma unat_ucast_32_64: "unat (ucast (w :: u32) :: u64) = unat w"
proof -
  have "unat w < 2 ^ 32"
    using unsigned_less [of w] by simp
  then have "unat w < 2 ^ 64"
    by simp
  then show ?thesis
    by (simp add: unsigned_ucast_eq take_bit_nat_eq_self)
qed

lemma unat_alignedSize:
  assumes "unat sz + 271 < 2 ^ 64"
  shows "unat (alignedSize sz) = ((16 + unat sz + 255) div 256) * 256"
proof -
  have e: "unat (16 + sz) = 16 + unat sz"
    using assms by (simp add: unat_word_ariths)
  have "unat ((16 + sz + (2 ^ 8 - 1)) AND NOT (2 ^ 8 - 1)) =
          ((unat (16 + sz) + (2 ^ 8 - 1)) div 2 ^ 8) * 2 ^ 8"
    using assms e by (intro align_up_unat) simp_all
  then show ?thesis
    by (simp add: alignedSize_def sizeof_GspQueueElement_def e)
qed

lemma freeSpace_uint:
  assumes "head < QUEUE_SIZE" "tail < QUEUE_SIZE"
  shows "uint (freeSpace head tail) = 0x40000 - ((uint tail - uint head) mod 0x40000)"
proof -
  define h t where "h = unat head" and "t = unat tail"
  have h: "h < 0x40000" and t: "t < 0x40000"
    using assms by (simp_all add: QUEUE_SIZE_def word_less_nat_alt h_def t_def)
  have ih: "uint head = int h" and it: "uint tail = int t"
    by (simp_all add: h_def t_def)
  show ?thesis
  proof (cases "head \<le> tail")
    case True
    then have le: "h \<le> t"
      by (simp add: word_le_nat_alt h_def t_def)
    have "unat (QUEUE_SIZE - tail) = 0x40000 - t"
      using t by (simp add: QUEUE_SIZE_def unat_sub word_le_nat_alt t_def)
    then have "unat (QUEUE_SIZE - tail + head) = 0x40000 - t + h"
      using h t by (simp add: unat_word_ariths h_def)
    then have "unat (freeSpace head tail) = 0x40000 - t + h"
      using True by (simp add: freeSpace_def unat_ucast_32_64)
    then have "uint (freeSpace head tail) = int (0x40000 - t + h)"
      by (simp only: uint_nat)
    moreover have "(int t - int h) mod 0x40000 = int t - int h"
      using h t le by simp
    ultimately show ?thesis
      using t by (simp add: ih it)
  next
    case False
    then have lt: "t < h"
      by (simp add: word_le_nat_alt h_def t_def)
    have "unat (head - tail) = h - t"
      using lt by (simp add: unat_sub word_le_nat_alt h_def t_def)
    then have "unat (freeSpace head tail) = h - t"
      using False by (simp add: freeSpace_def unat_ucast_32_64)
    then have "uint (freeSpace head tail) = int (h - t)"
      by (simp only: uint_nat)
    moreover have "(int t - int h) mod 0x40000 = (int t - int h + 0x40000) mod 0x40000"
      by simp
    moreover have "(int t - int h + 0x40000) mod 0x40000 = int t - int h + 0x40000"
      using h t lt by (intro mod_pos_pos_trivial) simp_all
    ultimately show ?thesis
      using lt by (simp add: ih it)
  qed
qed

lemma unat_ucast_64_32: "unat (x :: u64) < 2 ^ 32 \<Longrightarrow> unat (ucast x :: u32) = unat x"
  by (simp add: unsigned_ucast_eq take_bit_nat_eq_self)

lemma freeSpace_le:
  assumes "head < QUEUE_SIZE" "tail < QUEUE_SIZE"
  shows "unat (freeSpace head tail) \<le> 0x40000"
proof -
  define m where "m = (uint tail - uint head) mod 0x40000"
  have "0 \<le> m"
    unfolding m_def by (rule pos_mod_sign) simp
  moreover have "uint (freeSpace head tail) = 0x40000 - m"
    unfolding m_def by (rule freeSpace_uint [OF assms])
  ultimately have "uint (freeSpace head tail) \<le> 0x40000"
    by linarith
  then have "int (unat (freeSpace head tail)) \<le> 0x40000"
    by (simp only: uint_nat)
  then show ?thesis
    by linarith
qed

lemma new_tail_unat:
  fixes tail :: u32 and a :: u64
  assumes t: "tail < QUEUE_SIZE" and a: "unat a \<le> 0x40000"
  shows "unat (ucast ((ucast tail + a) mod ucast QUEUE_SIZE) :: u32) = (unat tail + unat a) mod 0x40000"
proof -
  have ut: "unat tail < 0x40000"
    using t by (simp add: QUEUE_SIZE_def word_less_nat_alt)
  have uq: "unat (ucast QUEUE_SIZE :: u64) = 0x40000"
    by (simp add: unat_ucast_32_64 QUEUE_SIZE_def)
  have "unat (ucast tail :: u64) + unat a < 2 ^ 64"
    using ut a by (simp add: unat_ucast_32_64)
  then have s: "unat (ucast tail + a) = unat tail + unat a"
    by (simp add: unat_add_lem [THEN iffD1] unat_ucast_32_64)
  have m: "unat ((ucast tail + a) mod ucast QUEUE_SIZE) = (unat tail + unat a) mod 0x40000"
    by (simp only: unat_mod s uq)
  have "(unat tail + unat a) mod 0x40000 < 0x40000"
    by simp
  then have "unat ((ucast tail + a) mod ucast QUEUE_SIZE) < 2 ^ 32"
    unfolding m by simp
  then show ?thesis
    using m by (simp add: unat_ucast_64_32)
qed

text \<open>
  C4. For local head and tail values below the capacity, the free space that
  \<^verbatim>\<open>enqueueCommand\<close> computes is the capacity minus \<open>(tail - head) mod capacity\<close>; the
  element size is the 16-byte header plus the payload rounded up to 256 (for payload
  sizes that the 64-bit sum can hold). When the free space is smaller than that size,
  \<^verbatim>\<open>enqueueCommand\<close> returns false and leaves the state as it was; otherwise it returns
  true and the local tail becomes \<open>(tail + alignedSize) mod capacity\<close>.
\<close>

theorem enqueueCommand_free_space:
  assumes q: "cmdQueue s = Some q"
    and h: "cmdQueueHead s < QUEUE_SIZE" and t: "cmdQueueTail s < QUEUE_SIZE"
    and sz: "unat sz + 271 < 2 ^ 64"
  shows "uint (freeSpace (cmdQueueHead s) (cmdQueueTail s)) =
           0x40000 - ((uint (cmdQueueTail s) - uint (cmdQueueHead s)) mod 0x40000) \<and>
         unat (alignedSize sz) = ((16 + unat sz + 255) div 256) * 256 \<and>
         (if unat (freeSpace (cmdQueueHead s) (cmdQueueTail s)) < unat (alignedSize sz)
          then enqueueCommand dev rc s msg sz = (False, s)
          else fst (enqueueCommand dev rc s msg sz) \<and>
               unat (cmdQueueTail (snd (enqueueCommand dev rc s msg sz))) =
                 (unat (cmdQueueTail s) + unat (alignedSize sz)) mod 0x40000)"
proof -
  let ?f = "freeSpace (cmdQueueHead s) (cmdQueueTail s)"
  have "unat ?f < unat (alignedSize sz) \<Longrightarrow> enqueueCommand dev rc s msg sz = (False, s)"
    using q by (simp add: enqueueCommand_def Let_def word_less_nat_alt)
  moreover have "fst (enqueueCommand dev rc s msg sz) \<and>
               unat (cmdQueueTail (snd (enqueueCommand dev rc s msg sz))) =
                 (unat (cmdQueueTail s) + unat (alignedSize sz)) mod 0x40000"
    if n: "\<not> unat ?f < unat (alignedSize sz)"
  proof -
    have "unat (alignedSize sz) \<le> 0x40000"
      using n freeSpace_le [OF h t] by simp
    from new_tail_unat [OF t this] n q show ?thesis
      by (simp add: enqueueCommand_def Let_def word_less_nat_alt writeReg_def)
  qed
  ultimately show ?thesis
    using freeSpace_uint [OF h t] unat_alignedSize [OF sz] by simp
qed

lemma load32_cong:
  "(\<And>x. a \<le> x \<Longrightarrow> x < a + 4 \<Longrightarrow> m x = m' x) \<Longrightarrow> load32 m a = load32 m' a"
  by (simp add: load32_def)

lemma enqueueCommand_fst:
  "fst (enqueueCommand dev rc s msg sz) =
     (cmdQueue s \<noteq> None \<and> \<not> freeSpace (cmdQueueHead s) (cmdQueueTail s) < alignedSize sz)"
  by (simp add: enqueueCommand_def Let_def split: option.split)

lemma enqueueCommand_mem_frame:
  assumes "\<And>q. cmdQueue s = Some q \<Longrightarrow>
             x < q + unat (cmdQueueTail s) \<or> q + unat (cmdQueueTail s) + 16 + unat sz \<le> x"
  shows "mem (snd (enqueueCommand dev rc s msg sz)) x = mem s x"
proof (cases "cmdQueue s")
  case None
  then show ?thesis
    by (simp add: enqueueCommand_def)
next
  case (Some q)
  from assms [OF Some] show ?thesis
    using Some
    by (auto simp: enqueueCommand_def Let_def writeReg_def store32_other memcpy_other)
qed

text \<open>
  C5. \<^verbatim>\<open>calcChecksum\<close> is the CRC-32 of the specification (reflected polynomial
  \<open>0xEDB88320\<close>, initial value and final XOR \<open>0xFFFFFFFF\<close>), with the check value
  \<open>0xCBF43926\<close> of that CRC on the digits 1 to 9. When \<^verbatim>\<open>enqueueCommand\<close> accepts a
  message that does not overlap the element it writes, the \<^verbatim>\<open>checkSum\<close> field of the
  frame (offset 8) holds the checksum of the payload bytes alone, the payload lies behind
  the 16-byte header, and the header's sequence number is not part of what is summed.
\<close>

theorem enqueueCommand_checksum:
  assumes q: "cmdQueue s = Some q"
    and fit: "\<not> freeSpace (cmdQueueHead s) (cmdQueueTail s) < alignedSize sz"
    and dj: "msg + unat sz \<le> q + unat (cmdQueueTail s) \<or>
             q + unat (cmdQueueTail s) + 16 + unat sz \<le> msg"
  shows "calcChecksum bs = crc32_reference bs \<and>
         calcChecksum check_input = 0xCBF43926 \<and>
         (let elem = q + unat (cmdQueueTail s);
              payload = read_bytes (mem s) msg (unat sz);
              s' = snd (enqueueCommand dev rc s msg sz)
          in fst (enqueueCommand dev rc s msg sz) \<and>
             load32 (mem s') (elem + 8) = calcChecksum payload \<and>
             read_bytes (mem s') (elem + 16) (unat sz) = payload \<and>
             load32 (mem s') elem = rpcSeqNum s)"
proof -
  define elem where "elem = q + unat (cmdQueueTail s)"
  define n where "n = unat sz"
  define m1 where "m1 = store32 (mem s) elem (rpcSeqNum s)"
  define m2 where "m2 = store32 m1 (elem + 4) (ucast ((alignedSize sz + 0xFFF) div 0x1000))"
  define m3 where "m3 = store32 m2 (elem + 12) 0"
  define m4 where "m4 = memcpy m3 (elem + 16) (read_bytes m3 msg n)"
  define m5 where "m5 = store32 m4 (elem + 8) (calcChecksum (read_bytes m4 (elem + 16) n))"
  have dj': "msg + n \<le> elem \<or> elem + 16 + n \<le> msg"
    using dj by (simp add: elem_def n_def)
  have ms: "mem (snd (enqueueCommand dev rc s msg sz)) = m5"
    using q fit
    by (simp add: enqueueCommand_def Let_def writeReg_def m5_def m4_def m3_def m2_def m1_def
        elem_def n_def)
  have src: "read_bytes m3 msg n = read_bytes (mem s) msg n"
    unfolding m3_def m2_def m1_def using dj'
    by (auto simp: read_bytes_store32_other)
  have pay: "read_bytes m4 (elem + 16) n = read_bytes (mem s) msg n"
    unfolding m4_def using read_bytes_memcpy_same [of m3 "elem + 16" "read_bytes m3 msg n"]
    by (simp add: src)
  have c: "load32 m5 (elem + 8) = calcChecksum (read_bytes (mem s) msg n)"
    unfolding m5_def by (simp add: load32_store32 pay)
  have d: "read_bytes m5 (elem + 16) n = read_bytes (mem s) msg n"
    unfolding m5_def by (simp add: read_bytes_store32_other pay)
  have e: "load32 m5 elem = rpcSeqNum s"
    unfolding m5_def m4_def m3_def m2_def m1_def
    by (simp add: load32_store32_other load32_memcpy_other load32_store32)
  have f: "fst (enqueueCommand dev rc s msg sz)"
    using q fit by (simp add: enqueueCommand_fst)
  from c d e f calcChecksum_reference [of bs] calcChecksum_check_value show ?thesis
    by (simp add: Let_def ms flip: elem_def n_def)
qed

lemma sendRpc_fst:
  "fst (sendRpc dev rc s msgBuf function params paramsSize) =
     rpc_accepted rc s msgBuf function paramsSize"
  by (auto simp: sendRpc_def rpc_accepted_def Let_def enqueueCommand_fst split: option.split)

lemma sendRpc_mem_frame:
  assumes b: "\<And>b. msgBuf = Some b \<Longrightarrow> x < b \<or> b + 24 + unat paramsSize \<le> x"
    and q: "\<And>q. cmdQueue s = Some q \<Longrightarrow>
              x < q + unat (cmdQueueTail s) \<or>
              q + unat (cmdQueueTail s) + 16 + unat (sizeof_NvRpcMessageHeader + paramsSize) \<le> x"
  shows "mem (snd (sendRpc dev rc s msgBuf function params paramsSize)) x = mem s x"
proof (cases "\<not> gspReady s \<and> function \<noteq> NV_VGPU_MSG_FUNCTION_GSP_SET_SYSTEM_INFO rc")
  case True
  then show ?thesis
    by (simp add: sendRpc_def)
next
  case False
  show ?thesis
  proof (cases msgBuf)
    case None
    then show ?thesis
      using False by (simp add: sendRpc_def Let_def)
  next
    case (Some b0)
    define m7 where "m7 =
      (let m1 = store32 (mem s) b0 (NV_VGPU_MSG_SIGNATURE_VALID rc);
           m2 = store32 m1 (b0 + 4) (push_bit 24 3);
           m3 = store32 m2 (b0 + 8) 0;
           m4 = store32 m3 (b0 + 12) 0;
           m5 = store32 m4 (b0 + 16) function;
           m6 = store32 m5 (b0 + 20) (ucast (sizeof_NvRpcMessageHeader + paramsSize))
       in case params of
            None \<Rightarrow> m6
          | Some p \<Rightarrow>
              if paramsSize > 0
              then memcpy m6 (b0 + 24) (read_bytes m6 p (unat paramsSize))
              else m6)"
    have r: "sendRpc dev rc s msgBuf function params paramsSize =
               enqueueCommand dev rc (s\<lparr>mem := m7\<rparr>) b0
                 (sizeof_NvRpcMessageHeader + paramsSize)"
      using False Some by (auto simp: sendRpc_def Let_def m7_def)
    have "mem (snd (enqueueCommand dev rc (s\<lparr>mem := m7\<rparr>) b0
                 (sizeof_NvRpcMessageHeader + paramsSize))) x = mem (s\<lparr>mem := m7\<rparr>) x"
      by (rule enqueueCommand_mem_frame) (use q in simp)
    moreover have "m7 x = mem s x"
      using b [OF Some]
      by (auto simp: m7_def Let_def store32_other memcpy_other split: option.split)
    ultimately show ?thesis
      by (simp add: r)
  qed
qed

lemma load32_frame:
  assumes "\<And>x. a \<le> x \<Longrightarrow> x < a + 4 \<Longrightarrow> m' x = m x"
  shows "load32 m' a = load32 m a"
  using assms by (simp add: load32_def)

lemma sendRpc_status_kept:
  assumes b: "\<And>b. msgBuf = Some b \<Longrightarrow> apart a 4 b (24 + unat paramsSize)"
    and q: "\<And>q. cmdQueue s = Some q \<Longrightarrow>
              apart a 4 (q + unat (cmdQueueTail s))
                (16 + unat (sizeof_NvRpcMessageHeader + paramsSize))"
  shows "load32 (mem (snd (sendRpc dev rc s msgBuf function params paramsSize))) a = load32 (mem s) a"
proof (rule load32_frame)
  fix x assume x: "a \<le> x" "x < a + 4"
  show "mem (snd (sendRpc dev rc s msgBuf function params paramsSize)) x = mem s x"
  proof (rule sendRpc_mem_frame)
    fix b0 assume "msgBuf = Some b0"
    from b [OF this] x show "x < b0 \<or> b0 + 24 + unat paramsSize \<le> x"
      by (auto simp: apart_def)
  next
    fix q0 assume "cmdQueue s = Some q0"
    from q [OF this] x
    show "x < q0 + unat (cmdQueueTail s) \<or>
          q0 + unat (cmdQueueTail s) + 16 + unat (sizeof_NvRpcMessageHeader + paramsSize) \<le> x"
      by (auto simp: apart_def)
  qed
qed

lemma rmAlloc_status:
  assumes buf: "rm_buffer (sizeof_NvGspAllocParams + paramsSize) stackBuf heapBuf = Some B"
    and b: "\<And>b. msgBuf = Some b \<Longrightarrow>
              apart (B + 16) 4 b (24 + unat (sizeof_NvGspAllocParams + paramsSize))"
    and q: "\<And>q. cmdQueue s = Some q \<Longrightarrow>
              apart (B + 16) 4 (q + unat (cmdQueueTail s))
                (16 + unat (sizeof_NvRpcMessageHeader + (sizeof_NvGspAllocParams + paramsSize)))"
  shows "load32 (mem (snd (rmAlloc dev rc s stackBuf heapBuf msgBuf hClient hParent hObject hClass
                             params paramsSize))) (B + 16) = 0"
    and "fst (rmAlloc dev rc s stackBuf heapBuf msgBuf hClient hParent hObject hClass
                params paramsSize) =
         rpc_accepted rc s msgBuf (NV_VGPU_MSG_FUNCTION_GSP_RM_ALLOC rc)
           (sizeof_NvGspAllocParams + paramsSize)"
proof -
  define m6 where "m6 =
    (let m1 = store32 (mem s) B hClient;
         m2 = store32 m1 (B + 4) hParent;
         m3 = store32 m2 (B + 8) hObject;
         m4 = store32 m3 (B + 12) hClass;
         m5 = store32 m4 (B + 16) 0
     in case params of
          None \<Rightarrow> m5
        | Some p \<Rightarrow>
            if paramsSize > 0
            then memcpy m5 (B + 20) (read_bytes m5 p (unat paramsSize))
            else m5)"
  define s0 where "s0 = s\<lparr>mem := m6\<rparr>"
  define r where "r = sendRpc dev rc s0 msgBuf (NV_VGPU_MSG_FUNCTION_GSP_RM_ALLOC rc) (Some B)
                        (sizeof_NvGspAllocParams + paramsSize)"
  have z: "load32 m6 (B + 16) = 0"
    by (simp add: m6_def Let_def load32_memcpy_other load32_store32 split: option.split)
  have "load32 (mem (snd r)) (B + 16) = load32 (mem s0) (B + 16)"
    unfolding r_def by (rule sendRpc_status_kept) (use b q in \<open>simp_all add: s0_def\<close>)
  then have k: "load32 (mem (snd r)) (B + 16) = 0"
    using z by (simp add: s0_def)
  have e: "rmAlloc dev rc s stackBuf heapBuf msgBuf hClient hParent hObject hClass params paramsSize =
             (if fst r \<and> load32 (mem (snd r)) (B + 16) \<noteq> 0 then (False, snd r) else (fst r, snd r))"
    using buf by (simp add: rmAlloc_def Let_def r_def s0_def m6_def case_prod_beta)
  have f: "fst r = rpc_accepted rc s msgBuf (NV_VGPU_MSG_FUNCTION_GSP_RM_ALLOC rc)
                     (sizeof_NvGspAllocParams + paramsSize)"
    by (simp add: r_def sendRpc_fst rpc_accepted_def s0_def)
  from e k show "load32 (mem (snd (rmAlloc dev rc s stackBuf heapBuf msgBuf hClient hParent hObject
                             hClass params paramsSize))) (B + 16) = 0"
    by simp
  from e k f show "fst (rmAlloc dev rc s stackBuf heapBuf msgBuf hClient hParent hObject hClass
                params paramsSize) =
         rpc_accepted rc s msgBuf (NV_VGPU_MSG_FUNCTION_GSP_RM_ALLOC rc)
           (sizeof_NvGspAllocParams + paramsSize)"
    by simp
qed

lemma rmControl_status:
  assumes buf: "rm_buffer (sizeof_NvGspControlParams + paramsSize) stackBuf heapBuf = Some B"
    and b: "\<And>b. msgBuf = Some b \<Longrightarrow>
              apart (B + 16) 4 b (24 + unat (sizeof_NvGspControlParams + paramsSize))"
    and q: "\<And>q. cmdQueue s = Some q \<Longrightarrow>
              apart (B + 16) 4 (q + unat (cmdQueueTail s))
                (16 + unat (sizeof_NvRpcMessageHeader + (sizeof_NvGspControlParams + paramsSize)))"
  shows "load32 (mem (snd (rmControl dev rc s stackBuf heapBuf msgBuf hClient hObject cmd
                             params paramsSize))) (B + 16) = 0"
    and "fst (rmControl dev rc s stackBuf heapBuf msgBuf hClient hObject cmd params paramsSize) =
         rpc_accepted rc s msgBuf (NV_VGPU_MSG_FUNCTION_GSP_RM_CONTROL rc)
           (sizeof_NvGspControlParams + paramsSize)"
proof -
  define m7 where "m7 =
    (let m1 = store32 (mem s) B hClient;
         m2 = store32 m1 (B + 4) hObject;
         m3 = store32 m2 (B + 8) cmd;
         m4 = store32 m3 (B + 12) 0;
         m5 = store32 m4 (B + 16) 0;
         m6 = store32 m5 (B + 20) (ucast paramsSize)
     in case params of
          None \<Rightarrow> m6
        | Some p \<Rightarrow>
            if paramsSize > 0
            then memcpy m6 (B + 24) (read_bytes m6 p (unat paramsSize))
            else m6)"
  define s0 where "s0 = s\<lparr>mem := m7\<rparr>"
  define r where "r = sendRpc dev rc s0 msgBuf (NV_VGPU_MSG_FUNCTION_GSP_RM_CONTROL rc) (Some B)
                        (sizeof_NvGspControlParams + paramsSize)"
  have z: "load32 m7 (B + 16) = 0"
    by (simp add: m7_def Let_def load32_memcpy_other load32_store32_other load32_store32
        split: option.split)
  have "load32 (mem (snd r)) (B + 16) = load32 (mem s0) (B + 16)"
    unfolding r_def by (rule sendRpc_status_kept) (use b q in \<open>simp_all add: s0_def\<close>)
  then have k: "load32 (mem (snd r)) (B + 16) = 0"
    using z by (simp add: s0_def)
  have e: "rmControl dev rc s stackBuf heapBuf msgBuf hClient hObject cmd params paramsSize =
             (if fst r \<and> load32 (mem (snd r)) (B + 16) \<noteq> 0 then (False, snd r) else (fst r, snd r))"
    using buf by (simp add: rmControl_def Let_def r_def s0_def m7_def case_prod_beta)
  have f: "fst r = rpc_accepted rc s msgBuf (NV_VGPU_MSG_FUNCTION_GSP_RM_CONTROL rc)
                     (sizeof_NvGspControlParams + paramsSize)"
    by (simp add: r_def sendRpc_fst rpc_accepted_def s0_def)
  from e k show "load32 (mem (snd (rmControl dev rc s stackBuf heapBuf msgBuf hClient hObject cmd
                             params paramsSize))) (B + 16) = 0"
    by simp
  from e k f show "fst (rmControl dev rc s stackBuf heapBuf msgBuf hClient hObject cmd params
                          paramsSize) =
         rpc_accepted rc s msgBuf (NV_VGPU_MSG_FUNCTION_GSP_RM_CONTROL rc)
           (sizeof_NvGspControlParams + paramsSize)"
    by simp
qed

lemma rm_no_buffer:
  "rm_buffer (sizeof_NvGspAllocParams + paramsSize) stackBuf heapBuf = None \<Longrightarrow>
     rmAlloc dev rc s stackBuf heapBuf msgBuf hClient hParent hObject hClass params paramsSize =
       (False, s)"
  "rm_buffer (sizeof_NvGspControlParams + paramsSize) stackBuf heapBuf = None \<Longrightarrow>
     rmControl dev rc s stackBuf heapBuf msgBuf hClient hObject cmd params paramsSize = (False, s)"
  by (simp_all add: rmAlloc_def rmControl_def Let_def)

text \<open>
  C9. In \<^verbatim>\<open>rmAlloc\<close> and \<^verbatim>\<open>rmControl\<close> the status word of the request header is written
  as 0, and \<^verbatim>\<open>sendRpc\<close> writes only to its own message buffer and to the queue element.
  When those do not overlap the status word, it still reads 0 at the inspection point
  (the memory there is the memory the function returns), so the failure branch is never
  taken: the function returns true exactly when \<^verbatim>\<open>sendRpc\<close> does, that is when the
  command is enqueued. Without a buffer the function returns false before anything else.
\<close>

theorem rm_status_branch_unreachable:
  assumes "\<forall>B b. rm_buffer (sizeof_NvGspAllocParams + paramsSize) stackBuf heapBuf = Some B \<and>
                 msgBuf = Some b \<longrightarrow>
                 apart (B + 16) 4 b (24 + unat (sizeof_NvGspAllocParams + paramsSize))"
    and "\<forall>B q. rm_buffer (sizeof_NvGspAllocParams + paramsSize) stackBuf heapBuf = Some B \<and>
               cmdQueue s = Some q \<longrightarrow>
               apart (B + 16) 4 (q + unat (cmdQueueTail s))
                 (16 + unat (sizeof_NvRpcMessageHeader + (sizeof_NvGspAllocParams + paramsSize)))"
    and "\<forall>B b. rm_buffer (sizeof_NvGspControlParams + paramsSize) stackBuf heapBuf = Some B \<and>
               msgBuf = Some b \<longrightarrow>
               apart (B + 16) 4 b (24 + unat (sizeof_NvGspControlParams + paramsSize))"
    and "\<forall>B q. rm_buffer (sizeof_NvGspControlParams + paramsSize) stackBuf heapBuf = Some B \<and>
               cmdQueue s = Some q \<longrightarrow>
               apart (B + 16) 4 (q + unat (cmdQueueTail s))
                 (16 + unat (sizeof_NvRpcMessageHeader + (sizeof_NvGspControlParams + paramsSize)))"
  shows "(case rm_buffer (sizeof_NvGspAllocParams + paramsSize) stackBuf heapBuf of
            None \<Rightarrow>
              rmAlloc dev rc s stackBuf heapBuf msgBuf hClient hParent hObject hClass params
                paramsSize = (False, s)
          | Some B \<Rightarrow>
              load32 (mem (snd (rmAlloc dev rc s stackBuf heapBuf msgBuf hClient hParent hObject
                                  hClass params paramsSize))) (B + 16) = 0 \<and>
              fst (rmAlloc dev rc s stackBuf heapBuf msgBuf hClient hParent hObject hClass params
                     paramsSize) =
                rpc_accepted rc s msgBuf (NV_VGPU_MSG_FUNCTION_GSP_RM_ALLOC rc)
                  (sizeof_NvGspAllocParams + paramsSize)) \<and>
         (case rm_buffer (sizeof_NvGspControlParams + paramsSize) stackBuf heapBuf of
            None \<Rightarrow>
              rmControl dev rc s stackBuf heapBuf msgBuf hClient hObject cmd params paramsSize =
                (False, s)
          | Some B \<Rightarrow>
              load32 (mem (snd (rmControl dev rc s stackBuf heapBuf msgBuf hClient hObject cmd
                                  params paramsSize))) (B + 16) = 0 \<and>
              fst (rmControl dev rc s stackBuf heapBuf msgBuf hClient hObject cmd params
                     paramsSize) =
                rpc_accepted rc s msgBuf (NV_VGPU_MSG_FUNCTION_GSP_RM_CONTROL rc)
                  (sizeof_NvGspControlParams + paramsSize))"
proof -
  have a: ?thesis
    if "rm_buffer (sizeof_NvGspAllocParams + paramsSize) stackBuf heapBuf = x"
      and "rm_buffer (sizeof_NvGspControlParams + paramsSize) stackBuf heapBuf = y" for x y
  proof -
    have 1: "rmAlloc dev rc s stackBuf heapBuf msgBuf hClient hParent hObject hClass params
                paramsSize = (False, s)" if "x = None"
      using that \<open>rm_buffer (sizeof_NvGspAllocParams + paramsSize) stackBuf heapBuf = x\<close>
      by (simp add: rm_no_buffer)
    have 2: "rmControl dev rc s stackBuf heapBuf msgBuf hClient hObject cmd params paramsSize =
                (False, s)" if "y = None"
      using that \<open>rm_buffer (sizeof_NvGspControlParams + paramsSize) stackBuf heapBuf = y\<close>
      by (simp add: rm_no_buffer)
    have 3: "load32 (mem (snd (rmAlloc dev rc s stackBuf heapBuf msgBuf hClient hParent hObject
                                  hClass params paramsSize))) (B + 16) = 0 \<and>
              fst (rmAlloc dev rc s stackBuf heapBuf msgBuf hClient hParent hObject hClass params
                     paramsSize) =
                rpc_accepted rc s msgBuf (NV_VGPU_MSG_FUNCTION_GSP_RM_ALLOC rc)
                  (sizeof_NvGspAllocParams + paramsSize)" if "x = Some B" for B
    proof -
      have bb: "rm_buffer (sizeof_NvGspAllocParams + paramsSize) stackBuf heapBuf = Some B"
        using that \<open>rm_buffer (sizeof_NvGspAllocParams + paramsSize) stackBuf heapBuf = x\<close>
        by simp
      show ?thesis
        using rmAlloc_status [OF bb, of msgBuf s] assms(1,2) bb by blast
    qed
    have 4: "load32 (mem (snd (rmControl dev rc s stackBuf heapBuf msgBuf hClient hObject cmd
                                  params paramsSize))) (B + 16) = 0 \<and>
              fst (rmControl dev rc s stackBuf heapBuf msgBuf hClient hObject cmd params
                     paramsSize) =
                rpc_accepted rc s msgBuf (NV_VGPU_MSG_FUNCTION_GSP_RM_CONTROL rc)
                  (sizeof_NvGspControlParams + paramsSize)" if "y = Some B" for B
    proof -
      have bb: "rm_buffer (sizeof_NvGspControlParams + paramsSize) stackBuf heapBuf = Some B"
        using that \<open>rm_buffer (sizeof_NvGspControlParams + paramsSize) stackBuf heapBuf = y\<close>
        by simp
      show ?thesis
        using rmControl_status [OF bb, of msgBuf s] assms(3,4) bb by blast
    qed
    show ?thesis
      using that 1 2 3 4 by (simp split: option.split)
  qed
  show ?thesis
    by (rule a) simp_all
qed

lemma ex_eval:
  "freeSpace 0 0 = 0x40000" "alignedSize 100 = 256" "alignedSize 44 = 256" "alignedSize 48 = 256"
  by (simp_all add: freeSpace_def QUEUE_SIZE_def alignedSize_def sizeof_GspQueueElement_def)

theorem enqueueCommand_free_space_witness:
  "cmdQueue gsp_ex = Some 0x100000 \<and> cmdQueueHead gsp_ex < QUEUE_SIZE \<and>
   cmdQueueTail gsp_ex < QUEUE_SIZE \<and> unat (100 :: u64) + 271 < 2 ^ 64 \<and>
   fst (enqueueCommand device_inert catalog_ex gsp_ex 0x5000 100) \<and>
   unat (cmdQueueTail (snd (enqueueCommand device_inert catalog_ex gsp_ex 0x5000 100))) = 256"
proof -
  have q: "cmdQueue gsp_ex = Some 0x100000"
    and h: "cmdQueueHead gsp_ex < QUEUE_SIZE" and t: "cmdQueueTail gsp_ex < QUEUE_SIZE"
    by (simp_all add: gsp_ex_def QUEUE_SIZE_def)
  have sz: "unat (100 :: u64) + 271 < 2 ^ 64"
    by simp
  have v: "cmdQueueHead gsp_ex = 0" "cmdQueueTail gsp_ex = 0"
    by (simp_all add: gsp_ex_def)
  from enqueueCommand_free_space [OF q h t sz, of device_inert catalog_ex "0x5000"]
  show ?thesis
    using q h t by (simp add: v ex_eval)
qed

theorem enqueueCommand_checksum_witness:
  "cmdQueue gsp_ex = Some 0x100000 \<and>
   \<not> freeSpace (cmdQueueHead gsp_ex) (cmdQueueTail gsp_ex) < alignedSize 100 \<and>
   load32 (mem (snd (enqueueCommand device_inert catalog_ex gsp_ex 0x5000 100))) 0x100008 =
     calcChecksum (read_bytes (mem gsp_ex) 0x5000 100)"
proof -
  have q: "cmdQueue gsp_ex = Some 0x100000"
    by (simp add: gsp_ex_def)
  have v: "cmdQueueHead gsp_ex = 0" "cmdQueueTail gsp_ex = 0"
    by (simp_all add: gsp_ex_def)
  have fit: "\<not> freeSpace (cmdQueueHead gsp_ex) (cmdQueueTail gsp_ex) < alignedSize 100"
    by (simp add: v ex_eval)
  have dj: "0x5000 + unat (100 :: u64) \<le> 0x100000 + unat (cmdQueueTail gsp_ex) \<or>
            0x100000 + unat (cmdQueueTail gsp_ex) + 16 + unat (100 :: u64) \<le> 0x5000"
    by (simp add: v)
  from enqueueCommand_checksum [OF q fit dj, of "[]" device_inert catalog_ex]
  show ?thesis
    using q fit by (simp add: Let_def v)
qed

theorem rm_status_branch_unreachable_witness:
  "rm_buffer (sizeof_NvGspAllocParams + 0) 0x7000 None = Some 0x7000 \<and>
   apart (0x7000 + 16) 4 0x9000 (24 + unat (sizeof_NvGspAllocParams + 0)) \<and>
   fst (rmAlloc device_inert catalog_ex gsp_ex 0x7000 None (Some 0x9000) 1 2 3 4 None 0) \<and>
   load32 (mem (snd (rmAlloc device_inert catalog_ex gsp_ex 0x7000 None (Some 0x9000) 1 2 3 4
                       None 0))) (0x7000 + 16) = 0 \<and>
   fst (rmControl device_inert catalog_ex gsp_ex 0x7000 None (Some 0x9000) 1 3 5 None 0)"
proof -
  have ba: "rm_buffer (sizeof_NvGspAllocParams + 0) 0x7000 None = Some 0x7000"
    and bc: "rm_buffer (sizeof_NvGspControlParams + 0) 0x7000 None = Some 0x7000"
    by (simp_all add: rm_buffer_def sizeof_NvGspAllocParams_def sizeof_NvGspControlParams_def)
  have v: "cmdQueueHead gsp_ex = 0" "cmdQueueTail gsp_ex = 0" "cmdQueue gsp_ex = Some 0x100000"
    "gspReady gsp_ex"
    by (simp_all add: gsp_ex_def)
  have h1: "\<forall>B b. rm_buffer (sizeof_NvGspAllocParams + 0) 0x7000 None = Some B \<and>
                 Some 0x9000 = Some b \<longrightarrow>
                 apart (B + 16) 4 b (24 + unat (sizeof_NvGspAllocParams + 0))"
    by (auto simp: rm_buffer_def apart_def sizeof_NvGspAllocParams_def)
  have h2: "\<forall>B q. rm_buffer (sizeof_NvGspAllocParams + 0) 0x7000 None = Some B \<and>
               cmdQueue gsp_ex = Some q \<longrightarrow>
               apart (B + 16) 4 (q + unat (cmdQueueTail gsp_ex))
                 (16 + unat (sizeof_NvRpcMessageHeader + (sizeof_NvGspAllocParams + 0)))"
    by (auto simp: rm_buffer_def v apart_def sizeof_NvGspAllocParams_def
        sizeof_NvRpcMessageHeader_def)
  have h3: "\<forall>B b. rm_buffer (sizeof_NvGspControlParams + 0) 0x7000 None = Some B \<and>
               Some 0x9000 = Some b \<longrightarrow>
               apart (B + 16) 4 b (24 + unat (sizeof_NvGspControlParams + 0))"
    by (auto simp: rm_buffer_def apart_def sizeof_NvGspControlParams_def)
  have h4: "\<forall>B q. rm_buffer (sizeof_NvGspControlParams + 0) 0x7000 None = Some B \<and>
               cmdQueue gsp_ex = Some q \<longrightarrow>
               apart (B + 16) 4 (q + unat (cmdQueueTail gsp_ex))
                 (16 + unat (sizeof_NvRpcMessageHeader + (sizeof_NvGspControlParams + 0)))"
    by (auto simp: rm_buffer_def v apart_def sizeof_NvGspControlParams_def
        sizeof_NvRpcMessageHeader_def)
  have e: "sizeof_NvRpcMessageHeader + sizeof_NvGspAllocParams = 44"
    "sizeof_NvRpcMessageHeader + sizeof_NvGspControlParams = 48"
    by (simp_all add: sizeof_NvRpcMessageHeader_def sizeof_NvGspAllocParams_def
        sizeof_NvGspControlParams_def)
  from rm_status_branch_unreachable [OF h1 h2 h3 h4, of device_inert catalog_ex 1 2 3 4 None 5]
  show ?thesis
    using ba bc h1 by (simp add: rpc_accepted_def v ex_eval e)
qed

section \<open>Properties of the boot functions\<close>

lemma readReg_simps [simp]:
  "fst (readReg s a) = regs s a"
  "regs (snd (readReg s a)) = regs s"
  "iolog (snd (readReg s a)) = iolog s"
  "wprMetaPhys (snd (readReg s a)) = wprMetaPhys s"
  "trace (snd (readReg s a)) = trace s @ [RegRead a]"
  by (simp_all add: readReg_def)

lemma scan_bases_keeps [simp]:
  "regs (scan_bases s bs) = regs s"
  "iolog (scan_bases s bs) = iolog s"
  "wprMetaPhys (scan_bases s bs) = wprMetaPhys s"
  by (induction bs arbitrary: s) (simp_all add: case_prod_beta)

lemma regs_at_poll_Suc:
  "regs_at_poll dev (on_delay dev 1000 r) n = regs_at_poll dev r (Suc n)"
  by (simp add: regs_at_poll_def funpow_swap1)

lemma ex_nat_split: "(\<exists>d::nat. P d) = (P 0 \<or> (\<exists>d. P (Suc d)))"
  by (metis not0_implies_Suc)

lemma all_le_Suc_split: "(\<forall>e\<le>Suc d. Q e) = (Q 0 \<and> (\<forall>e\<le>d. Q (Suc e)))"
proof
  assume a: "\<forall>e\<le>Suc d. Q e"
  then show "Q 0 \<and> (\<forall>e\<le>d. Q (Suc e))" by auto
next
  assume b: "Q 0 \<and> (\<forall>e\<le>d. Q (Suc e))"
  show "\<forall>e\<le>Suc d. Q e"
  proof (intro allI impI)
    fix e assume "e \<le> Suc d"
    then show "Q e" using b by (cases e) auto
  qed
qed

lemma riscv_wait_spec:
  "fst (riscv_wait dev rc s i) = (\<exists>d. i + d < 100 \<and> active_at dev rc (regs s) d) \<and>
   (\<forall>c k. LogBootError c k \<in> set (iolog (snd (riscv_wait dev rc s i))) \<longleftrightarrow>
            LogBootError c k \<in> set (iolog s) \<or> polled dev rc (regs s) i c k)"
proof (induction "100 - i" arbitrary: s i)
  case 0
  then have "\<not> i < 100" by simp
  then show ?case
    by (auto simp: riscv_wait.simps [of dev rc s i] polled_def)
next
  case (Suc n)
  then have lt: "i < 100" by simp
  define status where "status = regs s (NV_PRISCV_RISCV_CPUCTL rc)"
  define retcode where "retcode = regs s (NV_PRISCV_RISCV_BR_RETCODE rc)"
  define s3 where "s3 =
    (let s2 = snd (readReg (snd (readReg s (NV_PRISCV_RISCV_CPUCTL rc)))
                     (NV_PRISCV_RISCV_BR_RETCODE rc))
     in if i = 0 \<or> i = 10 \<or> i = 50 \<or> i = 99 then IOLog s2 (LogPoll i status retcode) else s2)"
  have r3: "regs s3 = regs s"
    and l3: "\<And>c k. LogBootError c k \<in> set (iolog s3) \<longleftrightarrow> LogBootError c k \<in> set (iolog s)"
    by (simp_all add: s3_def Let_def IOLog_def)
  have a0: "active_at dev rc (regs s) 0 = (status AND NV_PRISCV_CPUCTL_ACTIVE rc \<noteq> 0)"
    by (simp add: active_at_def regs_at_poll_def status_def)
  have c0: "retcode_at dev rc (regs s) 0 = retcode"
    by (simp add: retcode_at_def regs_at_poll_def retcode_def)
  show ?case
  proof (cases "active_at dev rc (regs s) 0")
    case True
    then have e: "riscv_wait dev rc s i = (True, IOLog s3 (LogActive i))"
      using lt
      by (simp add: riscv_wait.simps [of dev rc s i] a0 case_prod_beta Let_def s3_def
          status_def retcode_def)
    have "\<exists>d. i + d < 100 \<and> active_at dev rc (regs s) d"
      using True lt by (intro exI [of _ 0]) simp
    moreover have "\<not> polled dev rc (regs s) i c k" for c k
      using True by (auto simp: polled_def)
    ultimately show ?thesis
      by (simp add: e IOLog_def l3)
  next
    case False
    define s4 where "s4 =
      (if retcode \<noteq> 0 \<and> retcode \<noteq> 0xbadf5040 then IOLog s3 (LogBootError retcode i) else s3)"
    define s5 where "s5 = IODelay dev s4 1000"
    have r5: "regs s5 = on_delay dev 1000 (regs s)"
      by (simp add: s5_def s4_def IODelay_def IOLog_def r3)
    have l5: "LogBootError c k \<in> set (iolog s5) \<longleftrightarrow>
                LogBootError c k \<in> set (iolog s) \<or>
                (k = i \<and> c = retcode \<and> c \<noteq> 0 \<and> c \<noteq> 0xbadf5040)" for c k
      using l3 by (auto simp: s5_def s4_def IODelay_def IOLog_def)
    have e: "riscv_wait dev rc s i = riscv_wait dev rc s5 (i + 1)"
      using lt False
      by (simp add: riscv_wait.simps [of dev rc s i] a0 case_prod_beta Let_def s3_def
          s4_def s5_def status_def retcode_def)
    have n: "n = 100 - (i + 1)"
      using Suc.hyps(2) by simp
    note ih = Suc.hyps(1) [OF n, of s5]
    have sh: "active_at dev rc (regs s5) d = active_at dev rc (regs s) (Suc d)" for d
      by (simp add: active_at_def r5 regs_at_poll_Suc)
    have shc: "retcode_at dev rc (regs s5) d = retcode_at dev rc (regs s) (Suc d)" for d
      by (simp add: retcode_at_def r5 regs_at_poll_Suc)
    have res: "(\<exists>d. i + d < 100 \<and> active_at dev rc (regs s) d) =
               (\<exists>d. i + 1 + d < 100 \<and> active_at dev rc (regs s5) d)"
      using False by (subst ex_nat_split) (simp add: sh)
    have pol: "polled dev rc (regs s) i c k =
               ((k = i \<and> c = retcode \<and> c \<noteq> 0 \<and> c \<noteq> 0xbadf5040) \<or>
                polled dev rc (regs s5) (i + 1) c k)" for c k
      unfolding polled_def
      apply (subst ex_nat_split)
      using False lt
      apply (simp add: all_le_Suc_split sh shc c0)
      apply auto
      done
    show ?thesis
      using ih by (auto simp: e res l5 pol)
  qed
qed

text \<open>
  C2, as stated: every non-zero return code other than \<open>0xbadf5040\<close> is an error for the
  boot attempt. On the first device the poll that reads such a code finds the core active
  and returns true with no error logged; on the second the code is logged at poll 0 and
  the attempt still succeeds at poll 1.
\<close>

theorem startRiscv_retcode_counterexample:
  "fst (startRiscv device_stale_retcode catalog_ex gsp_ex) \<and>
   iolog (snd (startRiscv device_stale_retcode catalog_ex gsp_ex)) =
     [LogPoll 0 0x80 0xdead0001, LogActive 0] \<and>
   fst (startRiscv device_late_active catalog_ex gsp_ex) \<and>
   iolog (snd (startRiscv device_late_active catalog_ex gsp_ex)) =
     [LogPoll 0 0 0xdead0001, LogBootError 0xdead0001 0, LogActive 1]"
  by (simp add: startRiscv_def testBases_def readReg_def writeReg_def IODelay_def IOLog_def
      riscv_wait.simps device_stale_retcode_def device_late_active_def catalog_ex_def
      gsp_ex_def Let_def)


text \<open>
  C2, amended. Each poll first tests \<^verbatim>\<open>CPUCTL.ACTIVE\<close>, and \<^verbatim>\<open>startRiscv\<close> returns true
  exactly when one of the 100 polls finds it set, whatever \<^verbatim>\<open>BR_RETCODE\<close> holds. A poll
  that finds the core not active logs "Boot error detected" when the return code is
  neither 0 nor \<open>0xbadf5040\<close>, logs nothing for these two values, and polling goes on in
  both cases: the boot-error lines that \<^verbatim>\<open>startRiscv\<close> adds to the log are exactly those
  of such polls.
\<close>

theorem startRiscv_retcode_only_logged:
  "fst (startRiscv dev rc s) = (\<exists>d<100. active_at dev rc (regs_started dev rc s) d) \<and>
   (\<forall>c k. LogBootError c k \<in> set (iolog (snd (startRiscv dev rc s))) \<longleftrightarrow>
            LogBootError c k \<in> set (iolog s) \<or> polled dev rc (regs_started dev rc s) 0 c k)"
proof -
  define s6 where "s6 =
    (let s1 = scan_bases s testBases;
         s2 = snd (readReg s1 (NV_PRISCV_RISCV_CPUCTL rc));
         s3 = snd (readReg s2 (NV_PRISCV_RISCV_BCR_CTRL rc));
         bcrAddr = (ucast (drop_bit 8 (wprMetaPhys s3)) :: u32);
         s4 = writeReg dev s3 (NV_PRISCV_RISCV_BCR_DMEM_ADDR rc) bcrAddr;
         s5 = writeReg dev s4 (NV_PRISCV_RISCV_BCR_CTRL rc)
                (NV_PRISCV_RISCV_BCR_CTRL_VALID rc OR bcrAddr)
     in writeReg dev s5 (NV_PRISCV_RISCV_CPUCTL rc) (NV_PRISCV_CPUCTL_START rc))"
  have r6: "regs s6 = regs_started dev rc s" and l6: "iolog s6 = iolog s"
    by (simp_all add: s6_def Let_def writeReg_def regs_started_def)
  define w where "w = riscv_wait dev rc s6 0"
  have e: "startRiscv dev rc s =
             (if fst w then (True, snd w)
              else (False, IOLog (snd (readReg (snd (readReg (snd (readReg (snd (readReg (snd w)
                      (NV_PRISCV_RISCV_CPUCTL rc))) (NV_PRISCV_RISCV_BR_RETCODE rc)))
                      (NV_PGC6_BSI_SECURE_SCRATCH_14 rc))) (NV_PGSP_FALCON_MAILBOX0 rc))) LogFailed))"
    by (simp add: startRiscv_def Let_def case_prod_beta s6_def w_def)
  have f: "fst (startRiscv dev rc s) = fst w"
    by (simp add: e)
  have g: "LogBootError c k \<in> set (iolog (snd (startRiscv dev rc s))) \<longleftrightarrow>
           LogBootError c k \<in> set (iolog (snd w))" for c k
    by (simp add: e IOLog_def)
  from riscv_wait_spec [of dev rc s6 0] show ?thesis
    by (simp add: f g r6 l6 flip: w_def)
qed

theorem startRiscv_retcode_only_logged_witness:
  "fst (startRiscv device_late_active catalog_ex gsp_ex) \<and>
   LogBootError 0xdead0001 0 \<in> set (iolog (snd (startRiscv device_late_active catalog_ex gsp_ex)))"
proof -
  let ?r = "regs_started device_late_active catalog_ex gsp_ex"
  have a0: "\<not> active_at device_late_active catalog_ex ?r 0"
    and a1: "active_at device_late_active catalog_ex ?r 1"
    and c0: "retcode_at device_late_active catalog_ex ?r 0 = 0xdead0001"
    by (simp_all add: active_at_def retcode_at_def regs_at_poll_def regs_started_def
        device_late_active_def catalog_ex_def gsp_ex_def Let_def)
  have p: "polled device_late_active catalog_ex ?r 0 0xdead0001 0"
    using a0 c0 by (simp add: polled_def)
  have x: "\<exists>d<100. active_at device_late_active catalog_ex ?r d"
    using a1 by (intro exI [of _ 1]) simp
  from startRiscv_retcode_only_logged [of device_late_active catalog_ex gsp_ex] p x
  show ?thesis
    by blast
qed

text \<open>
  C1. When the enabled bit of \<^verbatim>\<open>WPR2_ADDR_HI\<close> is set as \<^verbatim>\<open>executeFwsecFrts\<close> is
  called, the function returns true whatever the strategies, the device and the allocator
  would do: its MMIO accesses are five register reads and no write or delay, the register
  file and host memory are as before, and the only members changed are the recorded WPR2
  bounds.
\<close>

theorem executeFwsecFrts_wpr2_already_set:
  assumes "NV_PFB_WPR2_ENABLED rc (regs s (NV_PFB_PRI_MMU_WPR2_ADDR_HI rc))"
  shows "executeFwsecFrts dev rc cs s dmemCopy =
           (True,
            s\<lparr>trace := trace s @
                 [RegRead (NV_PFB_PRI_MMU_WPR2_ADDR_HI rc), RegRead (NV_PFB_PRI_MMU_WPR2_ADDR_LO rc),
                  RegRead (NV_PFB_PRI_MMU_WPR2_ADDR_HI rc), RegRead (NV_PFB_PRI_MMU_WPR2_ADDR_LO rc),
                  RegRead (NV_PFB_PRI_MMU_WPR2_ADDR_LO_VAL rc)],
              wpr2Hi := push_bit 32 (ucast (regs s (NV_PFB_PRI_MMU_WPR2_ADDR_HI rc) AND 0xFFFFF))
                        OR ucast (regs s (NV_PFB_PRI_MMU_WPR2_ADDR_LO rc) AND 0xFFF00000),
              wpr2Lo := push_bit 12
                          (ucast (regs s (NV_PFB_PRI_MMU_WPR2_ADDR_LO_VAL rc) AND 0xFFFFF))\<rparr>) \<and>
         regs (snd (executeFwsecFrts dev rc cs s dmemCopy)) = regs s \<and>
         mem (snd (executeFwsecFrts dev rc cs s dmemCopy)) = mem s"
  using assms
  by (simp add: executeFwsecFrts_def checkWpr2Setup_def readReg_def Let_def)

theorem executeFwsecFrts_wpr2_already_set_witness:
  "NV_PFB_WPR2_ENABLED catalog_ex (regs gsp_wpr2_set (NV_PFB_PRI_MMU_WPR2_ADDR_HI catalog_ex)) \<and>
   fst (executeFwsecFrts device_inert catalog_ex callees_fail gsp_wpr2_set None) \<and>
   regs (snd (executeFwsecFrts device_inert catalog_ex callees_fail gsp_wpr2_set None)) =
     regs gsp_wpr2_set \<and>
   trace (snd (executeFwsecFrts device_inert catalog_ex callees_fail gsp_wpr2_set None)) =
     [RegRead 0x1FA828, RegRead 0x1FA824, RegRead 0x1FA828, RegRead 0x1FA824, RegRead 0x1FA820]"
proof -
  have h: "NV_PFB_WPR2_ENABLED catalog_ex
             (regs gsp_wpr2_set (NV_PFB_PRI_MMU_WPR2_ADDR_HI catalog_ex))"
    by (simp add: catalog_ex_def gsp_wpr2_set_def)
  from executeFwsecFrts_wpr2_already_set [OF h, of device_inert callees_fail None]
  show ?thesis
    using h by (simp add: catalog_ex_def gsp_wpr2_set_def gsp_ex_def)
qed

section \<open>Properties of the radix3 page table\<close>

lemma fill_level_length [simp]: "length (fill_level tbl base phys n i) = length tbl"
proof (induction "n - i" arbitrary: tbl i)
  case 0
  then show ?case by (simp add: fill_level.simps [of tbl base phys n i])
next
  case (Suc d)
  then have "i < n" and "d = n - (i + 1)" by simp_all
  with Suc.hyps(1) [of "i + 1"] show ?case
    by (simp add: fill_level.simps [of tbl base phys n i])
qed

lemma fill_level_nth:
  "base + n \<le> length tbl \<Longrightarrow> k < length tbl \<Longrightarrow>
   fill_level tbl base phys n i ! k =
     (if base + i \<le> k \<and> k < base + n then (phys + of_nat (k - base) * GSP_PAGE_SIZE) OR 1
      else tbl ! k)"
proof (induction "n - i" arbitrary: tbl i)
  case 0
  then have "\<not> i < n" by simp
  then show ?case by (auto simp: fill_level.simps [of tbl base phys n i])
next
  case (Suc d)
  then have lt: "i < n" and d: "d = n - (i + 1)" by simp_all
  let ?t = "tbl[base + i := (phys + of_nat i * GSP_PAGE_SIZE) OR 1]"
  have "fill_level tbl base phys n i ! k = fill_level ?t base phys n (i + 1) ! k"
    using lt by (simp add: fill_level.simps [of tbl base phys n i])
  also have "\<dots> = (if base + (i + 1) \<le> k \<and> k < base + n
                     then (phys + of_nat (k - base) * GSP_PAGE_SIZE) OR 1 else ?t ! k)"
    using Suc.hyps(1) [OF d, of ?t] Suc.prems by simp
  also have "\<dots> = (if base + i \<le> k \<and> k < base + n
                     then (phys + of_nat (k - base) * GSP_PAGE_SIZE) OR 1 else tbl ! k)"
    using lt Suc.prems by (auto simp: nth_list_update)
  finally show ?case .
qed

lemma fill_leaves_length [simp]: "length (snd (fill_leaves g tbl base n i)) = length tbl"
proof (induction "n - i" arbitrary: tbl i)
  case 0
  then show ?case by (simp add: fill_leaves.simps [of g tbl base n i])
next
  case (Suc d)
  then have "i < n" and "d = n - (i + 1)" by simp_all
  with Suc.hyps(1) [of "i + 1"] show ?case
    by (simp add: fill_leaves.simps [of g tbl base n i] Let_def)
qed

lemma fill_leaves_stop:
  assumes "i \<le> j" and "j \<le> n"
    and "\<forall>q. i \<le> q \<and> q < j \<longrightarrow> g (of_nat q * GSP_PAGE_SIZE) \<noteq> 0"
    and "j < n \<longrightarrow> g (of_nat j * GSP_PAGE_SIZE) = 0"
    and "base + n \<le> length tbl" and "k < length tbl"
  shows "fst (fill_leaves g tbl base n i) = (j = n) \<and>
         snd (fill_leaves g tbl base n i) ! k =
           (if base + i \<le> k \<and> k < base + j then g (of_nat (k - base) * GSP_PAGE_SIZE) OR 1
            else tbl ! k)"
  using assms
proof (induction "j - i" arbitrary: tbl i)
  case 0
  then have ij: "i = j" by simp
  show ?case
  proof (cases "j < n")
    case True
    with 0 ij have "fill_leaves g tbl base n i = (False, tbl)"
      by (subst fill_leaves.simps) (simp add: Let_def)
    with True ij show ?thesis
      by auto
  next
    case False
    with 0 ij have jn: "j = n" by simp
    with ij have "fill_leaves g tbl base n i = (True, tbl)"
      by (subst fill_leaves.simps) simp
    with jn ij show ?thesis
      by auto
  qed
next
  case (Suc d)
  then have lt: "i < j" and d: "d = j - (i + 1)" by simp_all
  then have ltn: "i < n" and le: "i + 1 \<le> j"
    using Suc.prems(2) by simp_all
  have nz: "g (of_nat i * GSP_PAGE_SIZE) \<noteq> 0"
    using Suc.prems(3) lt by simp
  let ?t = "tbl[base + i := g (of_nat i * GSP_PAGE_SIZE) OR 1]"
  have e: "fill_leaves g tbl base n i = fill_leaves g ?t base n (i + 1)"
    using ltn nz by (simp add: fill_leaves.simps [of g tbl base n i] Let_def)
  have ih: "fst (fill_leaves g ?t base n (i + 1)) = (j = n) \<and>
            snd (fill_leaves g ?t base n (i + 1)) ! k =
              (if base + (i + 1) \<le> k \<and> k < base + j
               then g (of_nat (k - base) * GSP_PAGE_SIZE) OR 1 else ?t ! k)"
    using Suc.hyps(1) [OF d le, of ?t] Suc.prems by simp
  show ?case
    using ih lt Suc.prems(2,5,6) by (auto simp: e nth_list_update)
qed

lemma unat_plus_nowrap:
  fixes a b :: u64
  shows "unat a + unat b < 2 ^ 64 \<Longrightarrow> unat (a + b) = unat a + unat b"
  by (simp add: unat_add_lem [THEN iffD1])

lemma unat_times_nowrap:
  fixes a b :: u64
  shows "unat a * unat b < 2 ^ 64 \<Longrightarrow> unat (a * b) = unat a * unat b"
  by (simp add: unat_mult_lem [THEN iffD1])

lemma unat_ceil_div_512:
  fixes a :: u64
  assumes "unat a < 2 ^ 52"
  shows "unat ((a + 511) div 512) = (unat a + 511) div 512"
proof -
  have "unat a + unat (511 :: u64) < 2 ^ 64"
    using assms by simp
  then have "unat (a + 511) = unat a + unat (511 :: u64)"
    by (rule unat_plus_nowrap)
  then have "unat (a + 511) div unat (512 :: u64) = (unat a + 511) div 512"
    by simp
  then show ?thesis
    by (simp only: unat_div)
qed

lemma radix3_counts:
  fixes sz :: u64
  assumes nw: "unat sz + 4095 < 2 ^ 64"
  defines "nP \<equiv> (unat sz + 4095) div 4096"
  defines "nL2 \<equiv> (nP + 511) div 512"
  defines "nL1 \<equiv> (nL2 + 511) div 512"
  shows "unat ((sz + GSP_PAGE_SIZE - 1) div GSP_PAGE_SIZE) = nP"
    and "unat (((sz + GSP_PAGE_SIZE - 1) div GSP_PAGE_SIZE + 511) div 512) = nL2"
    and "unat ((((sz + GSP_PAGE_SIZE - 1) div GSP_PAGE_SIZE + 511) div 512 + 511) div 512) = nL1"
    and "unat ((1 + (((sz + GSP_PAGE_SIZE - 1) div GSP_PAGE_SIZE + 511) div 512 + 511) div 512
               + ((sz + GSP_PAGE_SIZE - 1) div GSP_PAGE_SIZE + 511) div 512) * GSP_PAGE_SIZE) div 8
         = (1 + nL1 + nL2) * 512"
    and "nP \<le> nL2 * 512" and "nL2 \<le> nL1 * 512"
proof -
  define P where "P = (sz + GSP_PAGE_SIZE - 1) div GSP_PAGE_SIZE"
  define L2 where "L2 = (P + 511) div 512"
  define L1 where "L1 = (L2 + 511) div 512"
  have e: "sz + 0x1000 - 1 = sz + 0xFFF"
    by simp
  have "unat sz + unat (0xFFF :: u64) < 2 ^ 64"
    using nw by simp
  then have "unat (sz + 0xFFF) = unat sz + unat (0xFFF :: u64)"
    by (rule unat_plus_nowrap)
  then have "unat (sz + 0xFFF) div unat (0x1000 :: u64) = nP"
    by (simp add: nP_def)
  then have p: "unat P = nP"
    by (simp only: P_def GSP_PAGE_SIZE_def e unat_div)
  have bP: "nP < 2 ^ 52"
    using nw unfolding nP_def by simp
  have l2: "unat L2 = nL2"
    unfolding L2_def nL2_def using unat_ceil_div_512 [of P] bP p by simp
  have bL2: "nL2 < 2 ^ 44"
    using bP unfolding nL2_def by simp
  have l1: "unat L1 = nL1"
    unfolding L1_def nL1_def using unat_ceil_div_512 [of L2] bL2 l2 by simp
  have bL1: "nL1 < 2 ^ 36"
    using bL2 unfolding nL1_def by simp
  have "unat (1 :: u64) + unat L1 < 2 ^ 64"
    using bL1 l1 by simp
  then have "unat (1 + L1) = unat (1 :: u64) + unat L1"
    by (rule unat_plus_nowrap)
  then have a1: "unat (1 + L1) = 1 + nL1"
    using l1 by simp
  have "unat (1 + L1) + unat L2 < 2 ^ 64"
    using bL1 bL2 a1 l2 by simp
  then have "unat (1 + L1 + L2) = unat (1 + L1) + unat L2"
    by (rule unat_plus_nowrap)
  then have a2: "unat (1 + L1 + L2) = 1 + nL1 + nL2"
    using a1 l2 by simp
  have "unat (1 + L1 + L2) * unat (0x1000 :: u64) < 2 ^ 64"
    using bL1 bL2 a2 by simp
  then have "unat ((1 + L1 + L2) * 0x1000) = unat (1 + L1 + L2) * unat (0x1000 :: u64)"
    by (rule unat_times_nowrap)
  then have a3: "unat ((1 + L1 + L2) * 0x1000) div 8 = (1 + nL1 + nL2) * 512"
    using a2 by simp
  show "unat ((sz + GSP_PAGE_SIZE - 1) div GSP_PAGE_SIZE) = nP"
    using p by (simp only: P_def)
  show "unat (((sz + GSP_PAGE_SIZE - 1) div GSP_PAGE_SIZE + 511) div 512) = nL2"
    using l2 by (simp only: L2_def P_def)
  show "unat ((((sz + GSP_PAGE_SIZE - 1) div GSP_PAGE_SIZE + 511) div 512 + 511) div 512) = nL1"
    using l1 by (simp only: L1_def L2_def P_def)
  show "unat ((1 + (((sz + GSP_PAGE_SIZE - 1) div GSP_PAGE_SIZE + 511) div 512 + 511) div 512
               + ((sz + GSP_PAGE_SIZE - 1) div GSP_PAGE_SIZE + 511) div 512) * GSP_PAGE_SIZE) div 8
         = (1 + nL1 + nL2) * 512"
    using a3 by (simp only: L1_def L2_def P_def GSP_PAGE_SIZE_def)
  show "nP \<le> nL2 * 512"
    unfolding nL2_def using round_up_nat(1) [of 512 nP] by simp
  show "nL2 \<le> nL1 * 512"
    unfolding nL1_def using round_up_nat(1) [of 512 nL2] by simp
qed

lemma of_nat_unat_u64: "of_nat (unat (w :: u64)) = w"
  by simp

text \<open>
  C3, amended. For every firmware size whose rounding to pages does not wrap around
  64 bits, \<^verbatim>\<open>buildRadix3PageTable\<close> computes \<open>numPages = \<lceil>size / 4096\<rceil>\<close>,
  \<open>numL2 = \<lceil>numPages / 512\<rceil>\<close>, \<open>numL1 = \<lceil>numL2 / 512\<rceil>\<close>. When the allocation of the
  table buffer fails it returns false. Otherwise the buffer has exactly
  \<open>1 + numL1 + numL2\<close> pages of 512 entries, laid out root, L1 pages, L2 pages: the root
  entry \<open>i\<close> is \<open>(l1PhysBase + i * 4096) | 1\<close> for \<open>i < numL1\<close> (within the 512 entries of
  the root page) and the L1 entry \<open>i\<close> is \<open>(l2PhysBase + i * 4096) | 1\<close> for \<open>i < numL2\<close>.
  Let \<open>j\<close> be the first page whose query of the firmware descriptor gives 0, or
  \<open>numPages\<close> when there is none. The leaf \<open>i\<close> is the queried address of page \<open>i\<close> with
  bit 0 set for \<open>i < j\<close>, every other entry is zero, in particular the leaves from \<open>j\<close>
  on, and the function returns true exactly when \<open>j = numPages\<close>: at a page whose query
  gives 0 it stops and returns false.
\<close>

theorem buildRadix3PageTable_layout:
  assumes nw: "unat sz + 4095 < 2 ^ 64"
    and first: "j \<le> (unat sz + 4095) div 4096"
    and pages: "\<forall>i < j. getPhysicalSegment (of_nat i * 0x1000) \<noteq> 0"
    and stop: "j < (unat sz + 4095) div 4096 \<longrightarrow> getPhysicalSegment (of_nat j * 0x1000) = 0"
  shows "let numPages = (unat sz + 4095) div 4096;
             numL2 = (numPages + 511) div 512;
             numL1 = (numL2 + 511) div 512;
             l1PhysBase = phys + 0x1000;
             l2PhysBase = l1PhysBase + of_nat numL1 * 0x1000
         in \<exists>tbl.
              buildRadix3PageTable getPhysicalSegment (Some phys) st sz =
                (j = numPages, st\<lparr>radix3Mem := Some tbl, radix3Phys := phys\<rparr>) \<and>
              length tbl = (1 + numL1 + numL2) * 512 \<and>
              (\<forall>i < numL1. i < 512 \<longrightarrow> tbl ! i = (l1PhysBase + of_nat i * 0x1000) OR 1) \<and>
              (\<forall>i < numL2. tbl ! (512 + i) = (l2PhysBase + of_nat i * 0x1000) OR 1) \<and>
              (\<forall>i < j.
                 tbl ! (512 + numL1 * 512 + i) = getPhysicalSegment (of_nat i * 0x1000) OR 1) \<and>
              (\<forall>k < length tbl.
                 (numL1 \<le> k \<and> k < 512) \<or> (512 + numL2 \<le> k \<and> k < 512 + numL1 * 512) \<or>
                 512 + numL1 * 512 + j \<le> k \<longrightarrow> tbl ! k = 0) \<and>
              buildRadix3PageTable getPhysicalSegment None st sz =
                (False, st\<lparr>radix3Mem := None\<rparr>)"
proof -
  define nP where "nP = (unat sz + 4095) div 4096"
  define nL2 where "nL2 = (nP + 511) div 512"
  define nL1 where "nL1 = (nL2 + 511) div 512"
  define P where "P = (sz + GSP_PAGE_SIZE - 1) div GSP_PAGE_SIZE"
  define L2 where "L2 = (P + 511) div 512"
  define L1 where "L1 = (L2 + 511) div 512"
  note c = radix3_counts [OF nw, folded nP_def, folded nL2_def, folded nL1_def,
      folded P_def, folded L2_def, folded L1_def]
  define len where "len = (1 + nL1 + nL2) * 512"
  define l1Phys where "l1Phys = phys + GSP_PAGE_SIZE"
  define l2Phys where "l2Phys = l1Phys + L1 * GSP_PAGE_SIZE"
  define t0 where "t0 = replicate len (0 :: u64)"
  define t1 where "t1 = fill_level t0 0 l1Phys nL1 0"
  define t2 where "t2 = fill_level t1 512 l2Phys nL2 0"
  define base where "base = 512 + nL1 * 512"
  define r where "r = fill_leaves getPhysicalSegment t2 base nP 0"
  have jn: "j \<le> nP"
    using first by (simp add: nP_def)
  have len0: "length t0 = len" and len1: "length t1 = len" and len2: "length t2 = len"
    and len3: "length (snd r) = len"
    by (simp_all add: t0_def t1_def t2_def r_def)
  have b1: "0 + nL1 \<le> length t0" and b2: "512 + nL2 \<le> length t1"
    and b3: "base + nP \<le> length t2"
    using c(5,6) by (simp_all add: len0 len1 len2 len_def base_def)
  have n1: "t1 ! k = (if k < nL1 then (l1Phys + of_nat k * GSP_PAGE_SIZE) OR 1 else 0)"
    if "k < len" for k
    using fill_level_nth [OF b1, of k l1Phys 0] that by (simp add: t1_def len0 t0_def)
  have n2: "t2 ! k = (if 512 \<le> k \<and> k < 512 + nL2
                      then (l2Phys + of_nat (k - 512) * GSP_PAGE_SIZE) OR 1 else t1 ! k)"
    if "k < len" for k
    using fill_level_nth [OF b2, of k l2Phys 0] that by (simp add: t2_def len1)
  have pg: "\<forall>q. 0 \<le> q \<and> q < j \<longrightarrow> getPhysicalSegment (of_nat q * GSP_PAGE_SIZE) \<noteq> 0"
    using pages by (simp add: GSP_PAGE_SIZE_def)
  have st: "j < nP \<longrightarrow> getPhysicalSegment (of_nat j * GSP_PAGE_SIZE) = 0"
    using stop by (simp add: nP_def GSP_PAGE_SIZE_def)
  have z: "(0 :: nat) \<le> j"
    by simp
  have n3: "fst r = (j = nP) \<and>
            snd r ! k = (if base \<le> k \<and> k < base + j
                         then getPhysicalSegment (of_nat (k - base) * GSP_PAGE_SIZE) OR 1
                         else t2 ! k)"
    if "k < len" for k
    using fill_leaves_stop [OF z jn pg st b3, of k] that by (simp add: r_def len2)
  have ok: "fst r = (j = nP)"
    using n3 [of 0] by (simp add: len_def)
  have e: "buildRadix3PageTable getPhysicalSegment (Some phys) st sz =
             (fst r, st\<lparr>radix3Mem := Some (snd r), radix3Phys := phys\<rparr>)"
    using c(1-4)
    by (simp add: buildRadix3PageTable_def Let_def case_prod_beta r_def t2_def t1_def t0_def
        len_def base_def l2Phys_def l1Phys_def flip: P_def L2_def L1_def)
  have none: "buildRadix3PageTable getPhysicalSegment None st sz =
                (False, st\<lparr>radix3Mem := None\<rparr>)"
    by (simp add: buildRadix3PageTable_def Let_def)
  have L1n: "of_nat nL1 = L1"
    using c(3) of_nat_unat_u64 [of L1] by simp
  have root: "snd r ! i = (l1Phys + of_nat i * GSP_PAGE_SIZE) OR 1" if "i < nL1" "i < 512" for i
  proof -
    have "i < len" using that by (simp add: len_def)
    then show ?thesis
      using n3 [of i] n2 [of i] n1 [of i] that by (simp add: base_def)
  qed
  have mid: "snd r ! (512 + i) = (l2Phys + of_nat i * GSP_PAGE_SIZE) OR 1" if "i < nL2" for i
  proof -
    have "512 + i < len" and "512 + i < base"
      using that c(6) by (simp_all add: len_def base_def)
    then show ?thesis
      using n3 [of "512 + i"] n2 [of "512 + i"] that by simp
  qed
  have leaf: "snd r ! (base + i) = getPhysicalSegment (of_nat i * GSP_PAGE_SIZE) OR 1"
    if "i < j" for i
  proof -
    have "base + i < len"
      using that jn c(5) by (simp add: len_def base_def)
    then show ?thesis
      using n3 [of "base + i"] that by simp
  qed
  have zero: "snd r ! k = 0"
    if "k < len" "(nL1 \<le> k \<and> k < 512) \<or> (512 + nL2 \<le> k \<and> k < base) \<or> base + j \<le> k" for k
  proof -
    have q: "nL1 \<le> nL2"
      unfolding nL1_def by (cases "nL2 = 0") simp_all
    from that(2) show ?thesis
    proof (elim disjE)
      assume "nL1 \<le> k \<and> k < 512"
      then show ?thesis
        using n3 [OF that(1)] n2 [OF that(1)] n1 [OF that(1)] by (simp add: base_def)
    next
      assume "512 + nL2 \<le> k \<and> k < base"
      then show ?thesis
        using n3 [OF that(1)] n2 [OF that(1)] n1 [OF that(1)] q by simp
    next
      assume a: "base + j \<le> k"
      then have "512 + nL2 \<le> k" and "nL1 \<le> k"
        using c(6) q by (simp_all add: base_def)
      then show ?thesis
        using a n3 [OF that(1)] n2 [OF that(1)] n1 [OF that(1)] by simp
    qed
  qed
  show ?thesis
    unfolding Let_def
    apply (rule exI [of _ "snd r"])
    using ok root mid leaf zero none
    apply (simp add: e len3 flip: nP_def nL2_def nL1_def)
    apply (simp add: len_def base_def l1Phys_def l2Phys_def GSP_PAGE_SIZE_def L1n)
    done
qed


text \<open>
  C3, as stated for every firmware size and every descriptor. When the query for the
  second page gives 0 the function returns false and leaves that leaf zero; and a size of
  \<open>2 ^ 64 - 1\<close> bytes wraps in \<^verbatim>\<open>size + GSP_PAGE_SIZE - 1\<close>, giving no page at all.
\<close>

theorem buildRadix3PageTable_counterexample:
  "buildRadix3PageTable segment_second_fails (Some 0x10000) radix3_none 0x2000 =
     (False,
      \<lparr>radix3Mem = Some ((replicate 1536 0)[0 := 0x11001, 512 := 0x12001, 1024 := 0x5001]),
       radix3Phys = 0x10000\<rparr>) \<and>
   ((replicate 1536 0)[0 := 0x11001, 512 := 0x12001, 1024 := 0x5001]) ! 1025 \<noteq>
     segment_second_fails (1 * 0x1000) OR (1 :: u64) \<and>
   buildRadix3PageTable segment_linear (Some 0x10000) radix3_none 0xFFFFFFFFFFFFFFFF =
     (True, \<lparr>radix3Mem = Some (replicate 512 0), radix3Phys = 0x10000\<rparr>)"
  by (simp add: buildRadix3PageTable_def Let_def GSP_PAGE_SIZE_def radix3_none_def
      segment_second_fails_def segment_linear_def fill_level.simps fill_leaves.simps)

theorem buildRadix3PageTable_layout_witness:
  "unat (0x2000 :: u64) + 4095 < 2 ^ 64 \<and>
   fst (buildRadix3PageTable segment_linear (Some 0x10000) radix3_none 0x2000) \<and>
   (\<exists>tbl. radix3Mem (snd (buildRadix3PageTable segment_linear (Some 0x10000) radix3_none 0x2000))
            = Some tbl \<and>
          length tbl = 1536 \<and> tbl ! 0 = 0x11001 \<and> tbl ! 512 = 0x12001 \<and>
          tbl ! 1025 = 0x201001) \<and>
   segment_middle_fails (of_nat 1 * 0x1000) = 0 \<and>
   \<not> fst (buildRadix3PageTable segment_middle_fails (Some 0x10000) radix3_none 0x3000) \<and>
   (\<exists>tbl. radix3Mem (snd (buildRadix3PageTable segment_middle_fails (Some 0x10000) radix3_none
                              0x3000)) = Some tbl \<and>
          length tbl = 1536 \<and> tbl ! 1024 = 0x200001 \<and> tbl ! 1025 = 0 \<and> tbl ! 1026 = 0)"
proof -
  have nw: "unat (0x2000 :: u64) + 4095 < 2 ^ 64"
    by simp
  have first: "(2 :: nat) \<le> (unat (0x2000 :: u64) + 4095) div 4096"
    by simp
  have pages: "\<forall>i < (2 :: nat). segment_linear (of_nat i * 0x1000) \<noteq> 0"
  proof (intro allI impI)
    fix i :: nat assume "i < 2"
    then have "i = 0 \<or> i = 1" by auto
    then show "segment_linear (of_nat i * 0x1000) \<noteq> 0"
      by (auto simp: segment_linear_def)
  qed
  have stop: "(2 :: nat) < (unat (0x2000 :: u64) + 4095) div 4096 \<longrightarrow>
              segment_linear (of_nat 2 * 0x1000) = 0"
    by simp
  from buildRadix3PageTable_layout [OF nw first pages stop, of "0x10000" radix3_none]
  obtain tbl where
    e: "buildRadix3PageTable segment_linear (Some 0x10000) radix3_none 0x2000 =
          (True, radix3_none\<lparr>radix3Mem := Some tbl, radix3Phys := 0x10000\<rparr>)"
    and l: "length tbl = 1536"
    and r: "\<forall>i < 1. i < 512 \<longrightarrow> tbl ! i = ((0x10000 :: u64) + 0x1000 + of_nat i * 0x1000) OR 1"
    and m: "\<forall>i < 1. tbl ! (512 + i) = ((0x10000 :: u64) + 0x1000 + 0x1000 + of_nat i * 0x1000) OR 1"
    and f: "\<forall>i < 2. tbl ! (1024 + i) = segment_linear (of_nat i * 0x1000) OR 1"
    by (auto simp: Let_def)
  from r have "tbl ! 0 = 0x11001" by simp
  moreover from m have "tbl ! 512 = 0x12001" by simp
  moreover have "tbl ! (1024 + 1) = segment_linear (of_nat 1 * 0x1000) OR 1"
    using f [rule_format, of 1] by simp
  then have "tbl ! 1025 = 0x201001" by (simp add: segment_linear_def)
  ultimately have good:
    "fst (buildRadix3PageTable segment_linear (Some 0x10000) radix3_none 0x2000) \<and>
     (\<exists>tbl. radix3Mem (snd (buildRadix3PageTable segment_linear (Some 0x10000) radix3_none
                                0x2000)) = Some tbl \<and>
            length tbl = 1536 \<and> tbl ! 0 = 0x11001 \<and> tbl ! 512 = 0x12001 \<and>
            tbl ! 1025 = 0x201001)"
    using e l by simp
  have nw': "unat (0x3000 :: u64) + 4095 < 2 ^ 64"
    by simp
  have first': "(1 :: nat) \<le> (unat (0x3000 :: u64) + 4095) div 4096"
    by simp
  have pages': "\<forall>i < (1 :: nat). segment_middle_fails (of_nat i * 0x1000) \<noteq> 0"
    by (simp add: segment_middle_fails_def)
  have z: "segment_middle_fails (of_nat 1 * 0x1000) = 0"
    by (simp add: segment_middle_fails_def)
  then have stop': "(1 :: nat) < (unat (0x3000 :: u64) + 4095) div 4096 \<longrightarrow>
                    segment_middle_fails (of_nat 1 * 0x1000) = 0"
    by simp
  from buildRadix3PageTable_layout [OF nw' first' pages' stop', of "0x10000" radix3_none]
  obtain tbl' where
    e': "buildRadix3PageTable segment_middle_fails (Some 0x10000) radix3_none 0x3000 =
           (False, radix3_none\<lparr>radix3Mem := Some tbl', radix3Phys := 0x10000\<rparr>)"
    and l': "length tbl' = 1536"
    and f': "\<forall>i < 1. tbl' ! (1024 + i) = segment_middle_fails (of_nat i * 0x1000) OR 1"
    and z': "\<forall>k < 1536. (1 \<le> k \<and> k < 512) \<or> (513 \<le> k \<and> k < 1024) \<or> 1025 \<le> k \<longrightarrow>
               tbl' ! k = 0"
    by (auto simp: Let_def)
  from f' have "tbl' ! 1024 = 0x200001"
    by (simp add: segment_middle_fails_def)
  moreover from z' [rule_format, of 1025] have "tbl' ! 1025 = 0" by simp
  moreover from z' [rule_format, of 1026] have "tbl' ! 1026 = 0" by simp
  ultimately have bad:
    "\<not> fst (buildRadix3PageTable segment_middle_fails (Some 0x10000) radix3_none 0x3000) \<and>
     (\<exists>tbl. radix3Mem (snd (buildRadix3PageTable segment_middle_fails (Some 0x10000) radix3_none
                                0x3000)) = Some tbl \<and>
            length tbl = 1536 \<and> tbl ! 1024 = 0x200001 \<and> tbl ! 1025 = 0 \<and> tbl ! 1026 = 0)"
    using e' l' by simp
  from nw good z bad show ?thesis
    by blast
qed

section \<open>Properties of the VBIOS parser\<close>








lemmas vbios_ex_defs = layout_ex_def bit_header_ex_def vbios_truncated_def gsp_truncated_def
  vbios_unlisted_def gsp_unlisted_def gsp_ex_def info_none_def memcpy_def

lemmas parseVbios_defs = parseVbios_def parseVbios_run_def parseVbios_table_def
  parseVbios_ucode_def store_fwsec_info_def rom_scan.simps image_scan.simps image_base.simps
  bit_search.simps bit_tokens.simps pmu_candidates.simps pmu_has_fwsec.simps
  pmu_pattern_search.simps pmu_entries.simps rom_signature_def
  pmu_signature_def load16_def load32_def read_bytes_def bitPattern_def VBIOS_IMAGE_TYPE_FWSEC_def
  BIT_TOKEN_PMU_TABLE_def BIT_TOKEN_FALCON_DATA_def PMU_TABLE_SIGNATURE_V1_def
  PMU_TABLE_HEADER_SIZE_V1_def PMU_TABLE_ENTRY_SIZE_V1_def FWSEC_APP_ID_FWSEC_def
  DMEMMAPPER_SIGNATURE_def
















text \<open>
  C7. On \<^term>\<open>vbios_unlisted\<close> the one candidate of token \<open>0x50\<close> does not carry the
  signature and there is no token \<open>0x70\<close>: \<^verbatim>\<open>parseVbios\<close> returns true with \<^verbatim>\<open>valid\<close>
  false at the test \<^verbatim>\<open>pmuTableOffset == 0 || pmuHdr == nullptr\<close>, before the search by
  pattern. That search, had it been run, finds the table at its first step, \<open>0x9000\<close>.
\<close>

theorem parseVbios_returns_before_search:
  "parseVbios layout_ex gsp_unlisted 0 0x9200 =
     Some (True, gsp_unlisted\<lparr>fwsecInfo := info_none\<lparr>valid := False\<rparr>\<rparr>) \<and>
   pmu_pattern_search vbios_unlisted 0 0x9200 0x9000 = Some (Some 0x9000)"
  by (simp add: vbios_ex_defs parseVbios_defs upt_rec)

end
